theory Spec2Isabelle
  imports Main "HOL-Library.Log_Nat"
begin

section \<open>Python values\<close>

text \<open>
  An exception is its class name and its message (what \<^verbatim>\<open>str(e)\<close> prints). A computation
  that may raise returns \<open>exn + 'a\<close>, with \<open>Inl\<close> for the raised exception.
\<close>

datatype exn = Exn (exn_class: string) (exn_msg: string)

section \<open>Strings\<close>

text \<open>
  A Python string is modelled as a list of characters with code points below 256.
\<close>

fun starts_with :: "string \<Rightarrow> string \<Rightarrow> bool" where
  "starts_with s [] = True"
| "starts_with [] (p # ps) = False"
| "starts_with (c # cs) (p # ps) = (c = p \<and> starts_with cs ps)"

text \<open>\<^verbatim>\<open>sub in s\<close> for two strings.\<close>

fun str_contains :: "string \<Rightarrow> string \<Rightarrow> bool" where
  "str_contains [] sub = (sub = [])"
| "str_contains (c # cs) sub = (starts_with (c # cs) sub \<or> str_contains cs sub)"

text \<open>The characters \<^verbatim>\<open>\s\<close> matches and \<^verbatim>\<open>str.strip()\<close> removes.\<close>

definition is_space :: "char \<Rightarrow> bool" where
  "is_space c = ((of_char c :: nat) \<in> {9, 10, 11, 12, 13, 28, 29, 30, 31, 32, 133, 160})"

text \<open>The characters \<^verbatim>\<open>\w\<close> matches: alphanumeric ones and the underscore.\<close>

definition is_word_char :: "char \<Rightarrow> bool" where
  "is_word_char c =
     (let n = (of_char c :: nat) in
        (48 \<le> n \<and> n \<le> 57) \<or> (65 \<le> n \<and> n \<le> 90) \<or> n = 95 \<or> (97 \<le> n \<and> n \<le> 122)
        \<or> n \<in> {170, 178, 179, 181, 185, 186, 188, 189, 190}
        \<or> (192 \<le> n \<and> n \<le> 214) \<or> (216 \<le> n \<and> n \<le> 246) \<or> (248 \<le> n \<and> n \<le> 255))"

definition lower_char :: "char \<Rightarrow> char" where
  "lower_char c =
     (let n = (of_char c :: nat) in
        if (65 \<le> n \<and> n \<le> 90) \<or> (192 \<le> n \<and> n \<le> 214) \<or> (216 \<le> n \<and> n \<le> 222)
        then char_of (n + 32) else c)"

definition upper_char :: "char \<Rightarrow> char" where
  "upper_char c =
     (let n = (of_char c :: nat) in
        if (97 \<le> n \<and> n \<le> 122) then char_of (n - 32) else c)"

definition lower :: "string \<Rightarrow> string" where
  "lower s = map lower_char s"

definition strip :: "string \<Rightarrow> string" where
  "strip s = rev (dropWhile is_space (rev (dropWhile is_space s)))"

text \<open>\<^verbatim>\<open>s.replace('_', ' ')\<close>.\<close>

definition replace_underscores :: "string \<Rightarrow> string" where
  "replace_underscores s = map (\<lambda>c. if c = CHR ''_'' then CHR '' '' else c) s"

text \<open>
  \<^verbatim>\<open>str.title()\<close> on ASCII text: a letter that follows a non-letter is upper-cased, every
  other letter is lower-cased. The flag says whether the previous character was a letter.
\<close>

definition is_ascii_letter :: "char \<Rightarrow> bool" where
  "is_ascii_letter c =
     (let n = (of_char c :: nat) in (65 \<le> n \<and> n \<le> 90) \<or> (97 \<le> n \<and> n \<le> 122))"

fun title_from :: "bool \<Rightarrow> string \<Rightarrow> string" where
  "title_from prev [] = []"
| "title_from prev (c # cs) =
     (if is_ascii_letter c
      then (if prev then lower_char c else upper_char c) # title_from True cs
      else c # title_from False cs)"

definition py_title :: "string \<Rightarrow> string" where
  "py_title s = title_from False s"

text \<open>\<^verbatim>\<open>sep.join(parts)\<close>.\<close>

fun join :: "string \<Rightarrow> string list \<Rightarrow> string" where
  "join sep [] = []"
| "join sep [x] = x"
| "join sep (x # y # ys) = x @ sep @ join sep (y # ys)"

text \<open>The decimal digits of a natural number, and \<^verbatim>\<open>str(n)\<close> for an integer.\<close>

function digits_of :: "int \<Rightarrow> string" where
  "digits_of n =
     (if n < 10 then [char_of (48 + n)] else digits_of (n div 10) @ [char_of (48 + n mod 10)])"
  by pat_completeness auto
termination
  by (relation "measure nat") auto

definition str_int :: "int \<Rightarrow> string" where
  "str_int i = (if i < 0 then CHR ''-'' # digits_of (- i) else digits_of i)"

text \<open>A text between single quotes, as Python's messages show a type or attribute name.\<close>

definition quoted :: "string \<Rightarrow> string" where
  "quoted s = CHR 0x27 # s @ [CHR 0x27]"

text \<open>
  \<^verbatim>\<open>xs[:n]\<close>: a negative bound counts from the end.
\<close>

definition slice_to :: "int \<Rightarrow> 'a list \<Rightarrow> 'a list" where
  "slice_to n xs = (if 0 \<le> n then take (nat n) xs else take (length xs - nat (- n)) xs)"

section \<open>Floats\<close>

text \<open>
  A Python float is an IEEE 754 binary64 value. A finite one other than the negative zero is
  kept as a pair of integers: \<open>Fin m e\<close> is the number \<open>m * 2^e\<close>, with \<open>m\<close> odd, or
  \<open>m = 0\<close> and \<open>e = 0\<close> for the positive zero, so that a float has one representation. Every
  arithmetic result is the exact rational result rounded to the nearest float, ties to the
  even significand.
\<close>

datatype pyfloat = Fin int int | NZero | PInf | NInf | NaN

text \<open>\<open>2^k\<close> for a natural exponent given as an integer.\<close>

definition pow2 :: "int \<Rightarrow> int" where
  "pow2 k = 2 ^ nat k"

text \<open>
  For \<open>0 < p\<close> and \<open>0 < q\<close>, the exponent \<open>e\<close> with \<open>2^e \<le> p / q < 2^(e+1)\<close>
  (\<open>bitlen\<close> is the number of binary digits).
\<close>

definition exponent_of :: "int \<Rightarrow> int \<Rightarrow> int" where
  "exponent_of p q =
     (let e0 = bitlen p - bitlen q
      in if (if 0 \<le> e0 then q * pow2 e0 \<le> p else q \<le> p * pow2 (- e0)) then e0 else e0 - 1)"

text \<open>The integer nearest to \<open>n / d\<close> for \<open>0 \<le> n\<close> and \<open>0 < d\<close>, ties to even.\<close>

definition round_half_even :: "int \<Rightarrow> int \<Rightarrow> int" where
  "round_half_even n d =
     (let f = n div d; r = n mod d
      in if 2 * r < d then f else if d < 2 * r then f + 1 else if even f then f else f + 1)"

text \<open>
  The float nearest to \<open>p / q\<close> for \<open>0 < p\<close> and \<open>0 < q\<close>, as a significand of at most 53
  bits (or \<open>2^53\<close>) and an exponent, before the overflow check. Below \<open>2^-1022\<close> the
  spacing stays \<open>2^-1074\<close> (subnormal numbers).
\<close>

definition round_pos :: "int \<Rightarrow> int \<Rightarrow> int \<times> int" where
  "round_pos p q =
     (let g = max (exponent_of p q) (- 1022) - 52
      in (if 0 \<le> g then round_half_even p (q * pow2 g)
          else round_half_even (p * pow2 (- g)) q, g))"

text \<open>Whether \<open>m * 2^e\<close> (with \<open>0 \<le> m\<close>) is \<open>2^1024\<close> or more.\<close>

definition too_large :: "int \<Rightarrow> int \<Rightarrow> bool" where
  "too_large m e = (1024 < bitlen m + e)"

text \<open>The representation of \<open>m * 2^e\<close> with an odd significand.\<close>

function strip_zeros :: "int \<Rightarrow> int \<Rightarrow> int \<times> int" where
  "strip_zeros m e =
     (if m = 0 then (0, 0) else if even m then strip_zeros (m div 2) (e + 1) else (m, e))"
  by pat_completeness auto
termination
  by (relation "measure (\<lambda>(m, e). nat \<bar>m\<bar>)") auto

text \<open>The float of sign \<open>neg\<close> and magnitude \<open>m * 2^e\<close> (\<open>0 \<le> m\<close>).\<close>

definition pack :: "bool \<Rightarrow> int \<Rightarrow> int \<Rightarrow> pyfloat" where
  "pack neg m e =
     (if m = 0 then (if neg then NZero else Fin 0 0)
      else let (m', e') = strip_zeros m e in Fin (if neg then - m' else m') e')"

text \<open>
  The float nearest to the rational of sign \<open>neg\<close> and magnitude \<open>p / q\<close> (\<open>0 \<le> p\<close>,
  \<open>0 < q\<close>): \<open>None\<close> when the rounded magnitude does not fit a float.
\<close>

definition round_frac :: "bool \<Rightarrow> int \<Rightarrow> int \<Rightarrow> pyfloat option" where
  "round_frac neg p q =
     (if p = 0 then Some (pack neg 0 0)
      else let (m, e) = round_pos p q
           in if too_large m e then None else Some (pack neg m e))"

text \<open>A float operation that overflows gives an infinity.\<close>

definition to_float :: "bool \<Rightarrow> int \<Rightarrow> int \<Rightarrow> pyfloat" where
  "to_float neg p q =
     (case round_frac neg p q of
        Some x \<Rightarrow> x
      | None \<Rightarrow> if neg then NInf else PInf)"

text \<open>
  \<^verbatim>\<open>a / b\<close> for two Python integers: the correctly rounded quotient; it raises when the
  divisor is zero and when the quotient is too large for a float.
\<close>

definition int_truediv :: "int \<Rightarrow> int \<Rightarrow> exn + pyfloat" where
  "int_truediv a b =
     (if b = 0 then Inl (Exn ''ZeroDivisionError'' ''division by zero'')
      else case round_frac ((a < 0) \<noteq> (b < 0)) \<bar>a\<bar> \<bar>b\<bar> of
             None \<Rightarrow> Inl (Exn ''OverflowError'' ''integer division result too large for a float'')
           | Some x \<Rightarrow> Inr x)"

text \<open>\<^verbatim>\<open>x * y\<close> for two floats.\<close>

fun fl_negative :: "pyfloat \<Rightarrow> bool" where
  "fl_negative (Fin m e) = (m < 0)"
| "fl_negative NZero = True"
| "fl_negative PInf = False"
| "fl_negative NInf = True"
| "fl_negative NaN = False"

fun fl_is_zero :: "pyfloat \<Rightarrow> bool" where
  "fl_is_zero (Fin m e) = (m = 0)"
| "fl_is_zero NZero = True"
| "fl_is_zero x = False"

fun fl_is_inf :: "pyfloat \<Rightarrow> bool" where
  "fl_is_inf PInf = True"
| "fl_is_inf NInf = True"
| "fl_is_inf x = False"

definition fl_mul :: "pyfloat \<Rightarrow> pyfloat \<Rightarrow> pyfloat" where
  "fl_mul x y =
     (let neg = (fl_negative x \<noteq> fl_negative y)
      in if x = NaN \<or> y = NaN then NaN
         else if fl_is_inf x \<or> fl_is_inf y
         then (if fl_is_zero x \<or> fl_is_zero y then NaN else if neg then NInf else PInf)
         else if fl_is_zero x \<or> fl_is_zero y then (if neg then NZero else Fin 0 0)
         else case (x, y) of
                (Fin m1 e1, Fin m2 e2) \<Rightarrow>
                  (let e = e1 + e2; p = \<bar>m1 * m2\<bar>
                   in if 0 \<le> e then to_float neg (p * pow2 e) 1 else to_float neg p (pow2 (- e)))
              | _ \<Rightarrow> NaN)"

text \<open>Comparison of a Python integer with a float, which Python decides exactly.\<close>

fun float_lt_int :: "pyfloat \<Rightarrow> int \<Rightarrow> bool" where
  "float_lt_int (Fin m e) i = (if 0 \<le> e then m * pow2 e < i else m < i * pow2 (- e))"
| "float_lt_int NZero i = (0 < i)"
| "float_lt_int PInf i = False"
| "float_lt_int NInf i = True"
| "float_lt_int NaN i = False"

fun int_lt_float :: "int \<Rightarrow> pyfloat \<Rightarrow> bool" where
  "int_lt_float i (Fin m e) = (if 0 \<le> e then i < m * pow2 e else i * pow2 (- e) < m)"
| "int_lt_float i NZero = (i < 0)"
| "int_lt_float i PInf = True"
| "int_lt_float i NInf = False"
| "int_lt_float i NaN = False"

text \<open>The float literals \<^verbatim>\<open>1.2\<close>, \<^verbatim>\<open>0.8\<close> and \<^verbatim>\<open>0.0\<close>.\<close>

definition lit_1_2 :: pyfloat where
  "lit_1_2 = to_float False 12 10"

definition lit_0_8 :: pyfloat where
  "lit_0_8 = to_float False 8 10"

definition lit_0_0 :: pyfloat where
  "lit_0_0 = Fin 0 0"

text \<open>
  The formats \<^verbatim>\<open>:.0f\<close> and \<^verbatim>\<open>:.2f\<close>: the exact value rounded to that many decimals, ties to
  even, with the sign of the float (also when the digits are all zero).
\<close>

definition scaled_round :: "int \<Rightarrow> int \<Rightarrow> int \<Rightarrow> int" where
  "scaled_round k m e =
     (if 0 \<le> e then \<bar>m\<bar> * pow2 e * k else round_half_even (\<bar>m\<bar> * k) (pow2 (- e)))"

definition format_0f :: "pyfloat \<Rightarrow> string" where
  "format_0f x =
     (case x of
        Fin m e \<Rightarrow> (if m < 0 then ''-'' else []) @ digits_of (scaled_round 1 m e)
      | NZero \<Rightarrow> ''-0''
      | PInf \<Rightarrow> ''inf''
      | NInf \<Rightarrow> ''-inf''
      | NaN \<Rightarrow> ''nan'')"

definition two_decimals :: "int \<Rightarrow> string" where
  "two_decimals n =
     (let ds = digits_of n;
          padded = replicate (3 - length ds) (CHR ''0'') @ ds
      in take (length padded - 2) padded @ ''.'' @ drop (length padded - 2) padded)"

definition format_2f :: "pyfloat \<Rightarrow> string" where
  "format_2f x =
     (case x of
        Fin m e \<Rightarrow> (if m < 0 then ''-'' else []) @ two_decimals (scaled_round 100 m e)
      | NZero \<Rightarrow> ''-0.00''
      | PInf \<Rightarrow> ''inf''
      | NInf \<Rightarrow> ''-inf''
      | NaN \<Rightarrow> ''nan'')"

section \<open>Decoded JSON\<close>

text \<open>
  What \<^verbatim>\<open>response.json()\<close> and \<^verbatim>\<open>json.loads\<close> return. An object is the dictionary built
  from it, so its keys are distinct.
\<close>

datatype json =
    JNull
  | JBool bool
  | JInt int
  | JFloat pyfloat
  | JStr string
  | JArr "json list"
  | JObj "(string \<times> json) list"

text \<open>Truth value of a Python object, as \<^verbatim>\<open>if x\<close> and \<^verbatim>\<open>x and ...\<close> test it.\<close>

fun truthy :: "json \<Rightarrow> bool" where
  "truthy JNull = False"
| "truthy (JBool b) = b"
| "truthy (JInt n) = (n \<noteq> 0)"
| "truthy (JFloat x) = (\<not> fl_is_zero x)"
| "truthy (JStr s) = (s \<noteq> [])"
| "truthy (JArr xs) = (xs \<noteq> [])"
| "truthy (JObj kvs) = (kvs \<noteq> [])"

section \<open>The data model (models.py)\<close>

record product =
  product_id :: "string option"
  title :: string
  description :: "string option"
  price :: "string option"
  compare_at_price :: "string option"
  vendor :: "string option"
  product_type :: "string option"
  handle :: "string option"
  url :: "string option"
  images :: "string list"
  variants :: "json list"
  tags :: "string list"
  available :: "bool option"

record faq =
  question :: string
  answer :: string
  category :: "string option"

record social_handle =
  platform :: string
  social_url :: string
  social_name :: "string option"

record contact_info =
  emails :: "string list"
  phone_numbers :: "string list"
  address :: "string option"

record policy =
  policy_title :: string
  policy_content :: string
  policy_url :: "string option"

record important_link =
  link_title :: string
  link_url :: string
  link_description :: "string option"

record brand_context =
  website_url :: string
  brand_name :: "string option"
  about_brand :: "string option"
  product_catalog :: "product list"
  hero_products :: "product list"
  total_products :: int
  privacy_policy :: "policy option"
  return_policy :: "policy option"
  refund_policy :: "policy option"
  terms_of_service :: "policy option"
  shipping_policy :: "policy option"
  faqs :: "faq list"
  social_handles :: "social_handle list"
  contact_info :: contact_info
  important_links :: "important_link list"
  currency :: "string option"
  country :: "string option"
  timezone :: "string option"
  analysis_timestamp :: nat
  extraction_success :: bool
  extraction_notes :: "string list"

record competitor_analysis =
  primary_brand :: brand_context
  competitors :: "brand_context list"
  analysis_summary :: "string option"

text \<open>\<^verbatim>\<open>BrandContext(website_url=u)\<close>: every other field takes its declared default.\<close>

definition new_brand_context :: "string \<Rightarrow> nat \<Rightarrow> brand_context" where
  "new_brand_context u now =
     \<lparr> website_url = u, brand_name = None, about_brand = None,
       product_catalog = [], hero_products = [], total_products = 0,
       privacy_policy = None, return_policy = None, refund_policy = None,
       terms_of_service = None, shipping_policy = None,
       faqs = [], social_handles = [],
       contact_info = \<lparr> emails = [], phone_numbers = [], address = None \<rparr>,
       important_links = [], currency = None, country = None, timezone = None,
       analysis_timestamp = now, extraction_success = True, extraction_notes = [] \<rparr>"

section \<open>The world outside the program\<close>

text \<open>
  A parsed document (the \<^verbatim>\<open>BeautifulSoup\<close> object) is what the scraper's queries on it
  return: the four platform markers \<^verbatim>\<open>is_shopify_store\<close> looks for, the \<^verbatim>\<open>href\<close> of every
  anchor that has one (in document order), the stripped text of the first
  main/article/content block, and the outcome of each page extractor this development does
  not look into (it returns a value or raises).
\<close>

record soup =
  doc_generator_meta :: bool
  doc_shopify_script :: bool
  doc_shopify_text :: bool
  doc_shopify_link :: bool
  doc_anchors :: "string list"
  doc_content_block :: "string option"
  doc_brand_info :: "exn + string option \<times> string option"
  doc_contact_info :: "exn + contact_info"
  doc_faqs :: "exn + faq list"
  doc_important_links :: "string \<Rightarrow> exn + important_link list"
  doc_currency :: "string option"
  doc_country :: "string option"

text \<open>
  The log is the list of URLs requested so far. The network may answer the same URL
  differently each time, so an answer depends on the log as well. A page request ends in
  an exception that \<^verbatim>\<open>get_page_content\<close> does not catch (\<open>Inl\<close>), in a
  \<^verbatim>\<open>RequestException\<close>, which it turns into \<^verbatim>\<open>(None, None)\<close> (\<open>Inr None\<close>), or in a
  parsed document; a feed request likewise, with the decoded JSON value.

  The library functions are parameters too: \<^verbatim>\<open>urljoin\<close> (it may raise \<^verbatim>\<open>ValueError\<close>), the
  order in which a \<^verbatim>\<open>set\<close> built from a list is iterated, the clock, and the body of the
  \<^verbatim>\<open>try\<close> block of \<^verbatim>\<open>_extract_products\<close> for one feed entry that is a JSON object (field
  reads, HTML cleaning and the validating \<^verbatim>\<open>Product\<close> constructor), and \<^verbatim>\<open>json.loads\<close>.
\<close>

type_synonym log = "string list"

record world =
  http_page :: "log \<Rightarrow> string \<Rightarrow> exn + soup option"
  http_feed :: "log \<Rightarrow> string \<Rightarrow> exn + json option"
  urljoin :: "string \<Rightarrow> string \<Rightarrow> exn + string"
  set_order :: "string list \<Rightarrow> string list"
  clock :: "log \<Rightarrow> nat"
  make_product :: "string \<Rightarrow> (string \<times> json) list \<Rightarrow> exn + product"
  json_loads :: "string \<Rightarrow> exn + json"

text \<open>A faithful \<^verbatim>\<open>list(set(xs))\<close> lists each element of \<open>xs\<close> once.\<close>

definition set_order_ok :: "(string list \<Rightarrow> string list) \<Rightarrow> bool" where
  "set_order_ok f = (\<forall>xs. distinct (f xs) \<and> set (f xs) = set xs)"

section \<open>Operations on decoded JSON\<close>

text \<open>The exception texts are those of Python 3.11.\<close>

definition type_name :: "json \<Rightarrow> string" where
  "type_name j =
     (case j of JNull \<Rightarrow> ''NoneType'' | JBool _ \<Rightarrow> ''bool'' | JInt _ \<Rightarrow> ''int''
      | JFloat _ \<Rightarrow> ''float'' | JStr _ \<Rightarrow> ''str'' | JArr _ \<Rightarrow> ''list'' | JObj _ \<Rightarrow> ''dict'')"

text \<open>\<^verbatim>\<open>key in j\<close> for a string \<open>key\<close>.\<close>

definition py_in :: "string \<Rightarrow> json \<Rightarrow> exn + bool" where
  "py_in key j =
     (case j of
        JObj kvs \<Rightarrow> Inr (key \<in> set (map fst kvs))
      | JArr xs \<Rightarrow> Inr (JStr key \<in> set xs)
      | JStr s \<Rightarrow> Inr (str_contains s key)
      | _ \<Rightarrow> Inl (Exn ''TypeError''
                (''argument of type '' @ quoted (type_name j) @ '' is not iterable'')))"

text \<open>\<^verbatim>\<open>j[key]\<close> for a string \<open>key\<close>.\<close>

definition py_getitem :: "json \<Rightarrow> string \<Rightarrow> exn + json" where
  "py_getitem j key =
     (case j of
        JObj kvs \<Rightarrow>
          (case map_of kvs key of
             Some v \<Rightarrow> Inr v
           | None \<Rightarrow> Inl (Exn ''KeyError'' (quoted key)))
      | JArr xs \<Rightarrow> Inl (Exn ''TypeError'' ''list indices must be integers or slices, not str'')
      | JStr s \<Rightarrow>
          Inl (Exn ''TypeError'' (''string indices must be integers, not '' @ quoted ''str''))
      | _ \<Rightarrow> Inl (Exn ''TypeError'' (quoted (type_name j) @ '' object is not subscriptable'')))"

text \<open>The items \<^verbatim>\<open>for x in j\<close> runs through.\<close>

definition py_iter :: "json \<Rightarrow> exn + json list" where
  "py_iter j =
     (case j of
        JArr xs \<Rightarrow> Inr xs
      | JObj kvs \<Rightarrow> Inr (map (\<lambda>kv. JStr (fst kv)) kvs)
      | JStr s \<Rightarrow> Inr (map (\<lambda>c. JStr [c]) s)
      | _ \<Rightarrow> Inl (Exn ''TypeError'' (quoted (type_name j) @ '' object is not iterable'')))"

text \<open>\<^verbatim>\<open>data and 'products' in data\<close>, for the \<^verbatim>\<open>Optional\<close> value the feed probe returns.\<close>

definition has_products :: "json option \<Rightarrow> exn + bool" where
  "has_products data =
     (case data of
        None \<Rightarrow> Inr False
      | Some j \<Rightarrow> if truthy j then py_in ''products'' j else Inr False)"

section \<open>The regular expressions of the scraper\<close>

text \<open>
  Every pattern the modelled functions search for has the shape: a literal, then an optional
  group of alternatives, then a capture group \<^verbatim>\<open>([^...]+)\<close>. The alternatives are tried in
  the order written, the empty one last (the greedy \<^verbatim>\<open>?\<close>); the capture group takes the
  longest run of admitted characters and needs at least one.
\<close>

fun first_alternative :: "string list \<Rightarrow> (char \<Rightarrow> bool) \<Rightarrow> string \<Rightarrow> string option" where
  "first_alternative [] cls r = None"
| "first_alternative (a # alts) cls r =
     (if starts_with r a \<and> takeWhile cls (drop (length a) r) \<noteq> []
      then Some (takeWhile cls (drop (length a) r))
      else first_alternative alts cls r)"

definition match_here :: "string \<Rightarrow> string list \<Rightarrow> (char \<Rightarrow> bool) \<Rightarrow> string \<Rightarrow> string option" where
  "match_here lit alts cls s =
     (if starts_with s lit then first_alternative alts cls (drop (length lit) s) else None)"

text \<open>\<^verbatim>\<open>re.search\<close>: the match at the leftmost position that has one; the result is group 1.\<close>

fun re_search :: "string \<Rightarrow> string list \<Rightarrow> (char \<Rightarrow> bool) \<Rightarrow> string \<Rightarrow> string option" where
  "re_search lit alts cls [] = match_here lit alts cls []"
| "re_search lit alts cls (c # cs) =
     (case match_here lit alts cls (c # cs) of
        Some g \<Rightarrow> Some g
      | None \<Rightarrow> re_search lit alts cls cs)"

text \<open>The class \<^verbatim>\<open>[^/\s?]\<close>.\<close>

definition handle_char :: "char \<Rightarrow> bool" where
  "handle_char c = (c \<noteq> CHR ''/'' \<and> \<not> is_space c \<and> c \<noteq> CHR ''?'')"

text \<open>The class \<^verbatim>\<open>[^/?]\<close>.\<close>

definition slug_char :: "char \<Rightarrow> bool" where
  "slug_char c = (c \<noteq> CHR ''/'' \<and> c \<noteq> CHR ''?'')"

text \<open>The dictionary \<^verbatim>\<open>social_patterns\<close>, in its insertion order.\<close>

definition social_patterns :: "(string \<times> string \<times> string list) list" where
  "social_patterns =
     [(''instagram'', ''instagram.com/'', [[]]),
      (''facebook'', ''facebook.com/'', [[]]),
      (''twitter'', ''twitter.com/'', [[]]),
      (''tiktok'', ''tiktok.com/'', [''@'', []]),
      (''youtube'', ''youtube.com/'', [''c/'', ''channel/'', ''user/'', []]),
      (''linkedin'', ''linkedin.com/'', [''company/'', ''in/'', []]),
      (''pinterest'', ''pinterest.com/'', [[]])]"

section \<open>The scraper (scraper.py)\<close>

definition get_page_content :: "world \<Rightarrow> string \<Rightarrow> log \<Rightarrow> (exn + soup option) \<times> log" where
  "get_page_content w u lg = (http_page w lg u, lg @ [u])"

definition get_products_json :: "world \<Rightarrow> string \<Rightarrow> log \<Rightarrow> (exn + json option) \<times> log" where
  "get_products_json w base_url lg =
     (case urljoin w base_url ''/products.json'' of
        Inl e \<Rightarrow> (Inl e, lg)
      | Inr products_url \<Rightarrow> (http_feed w lg products_url, lg @ [products_url]))"

text \<open>
  \<^verbatim>\<open>is_shopify_store\<close>. Any exception inside is caught by the outer \<^verbatim>\<open>except Exception\<close>,
  which returns \<^verbatim>\<open>False\<close>.
\<close>

definition shopify_indicators :: "soup \<Rightarrow> bool list" where
  "shopify_indicators sp =
     [doc_generator_meta sp, doc_shopify_script sp, doc_shopify_text sp, doc_shopify_link sp]"

definition is_shopify_store :: "world \<Rightarrow> string \<Rightarrow> log \<Rightarrow> bool \<times> log" where
  "is_shopify_store w u lg =
     (let (products_data, lg1) = get_products_json w u lg
      in case products_data of
           Inl e \<Rightarrow> (False, lg1)
         | Inr data \<Rightarrow>
             (case has_products data of
                Inl e \<Rightarrow> (False, lg1)
              | Inr True \<Rightarrow> (True, lg1)
              | Inr False \<Rightarrow>
                  (let (page, lg2) = get_page_content w u lg1
                   in case page of
                        Inl e \<Rightarrow> (False, lg2)
                      | Inr None \<Rightarrow> (False, lg2)
                      | Inr (Some sp) \<Rightarrow> (list_ex (\<lambda>i. i) (shopify_indicators sp), lg2))))"

text \<open>
  \<^verbatim>\<open>extract_social_links\<close>: the entries one anchor contributes, one per pattern that matches
  its (lower-cased, absolute) target, in the order of the patterns.
\<close>

definition social_matches :: "string \<Rightarrow> social_handle list" where
  "social_matches href =
     concat (map (\<lambda>(name, lit, alts).
                    case re_search lit alts handle_char href of
                      Some g \<Rightarrow> [\<lparr> platform = name, social_url = href, social_name = Some g \<rparr>]
                    | None \<Rightarrow> [])
                 social_patterns)"

fun social_links_of :: "world \<Rightarrow> string \<Rightarrow> string list \<Rightarrow> exn + social_handle list" where
  "social_links_of w base_url [] = Inr []"
| "social_links_of w base_url (h # hs) =
     (let href = lower h
      in if href = [] then social_links_of w base_url hs
         else case (if starts_with href ''/'' then urljoin w base_url href else Inr href) of
                Inl e \<Rightarrow> Inl e
              | Inr target \<Rightarrow>
                  (case social_links_of w base_url hs of
                     Inl e \<Rightarrow> Inl e
                   | Inr rest \<Rightarrow> Inr (social_matches target @ rest)))"

definition extract_social_links :: "world \<Rightarrow> soup \<Rightarrow> string \<Rightarrow> exn + social_handle list" where
  "extract_social_links w sp base_url = social_links_of w base_url (doc_anchors sp)"

text \<open>
  \<^verbatim>\<open>extract_policies\<close>. The dictionary \<^verbatim>\<open>policy_urls\<close>, in its insertion order, and the
  inner loop over the candidate paths of one category: any exception in the body is caught
  and the loop continues with the next candidate; an accepted page ends the loop.
\<close>

definition policy_urls :: "(string \<times> string list) list" where
  "policy_urls =
     [(''privacy_policy'', [''/pages/privacy-policy'', ''/privacy-policy'', ''/pages/privacy'']),
      (''return_policy'', [''/pages/returns'', ''/pages/return-policy'', ''/returns'']),
      (''refund_policy'', [''/pages/refunds'', ''/pages/refund-policy'', ''/refunds'']),
      (''terms_of_service'', [''/pages/terms-of-service'', ''/terms'', ''/pages/terms'']),
      (''shipping_policy'', [''/pages/shipping-policy'', ''/pages/shipping'', ''/shipping''])]"

fun probe_policy :: "world \<Rightarrow> string \<Rightarrow> string \<Rightarrow> string list \<Rightarrow> log \<Rightarrow> policy option \<times> log" where
  "probe_policy w base_url policy_name [] lg = (None, lg)"
| "probe_policy w base_url policy_name (url_path # rest) lg =
     (case urljoin w base_url url_path of
        Inl e \<Rightarrow> probe_policy w base_url policy_name rest lg
      | Inr full_url \<Rightarrow>
          (let (page, lg1) = get_page_content w full_url lg
           in case page of
                Inl e \<Rightarrow> probe_policy w base_url policy_name rest lg1
              | Inr None \<Rightarrow> probe_policy w base_url policy_name rest lg1
              | Inr (Some sp) \<Rightarrow>
                  (case doc_content_block sp of
                     None \<Rightarrow> probe_policy w base_url policy_name rest lg1
                   | Some content \<Rightarrow>
                       if length content > 100
                       then (Some \<lparr> policy_title = py_title (replace_underscores policy_name),
                                    policy_content = take 2000 content,
                                    policy_url = Some full_url \<rparr>, lg1)
                       else probe_policy w base_url policy_name rest lg1)))"

fun policies_loop ::
  "world \<Rightarrow> string \<Rightarrow> (string \<times> string list) list \<Rightarrow> log \<Rightarrow> (string \<times> policy option) list \<times> log" where
  "policies_loop w base_url [] lg = ([], lg)"
| "policies_loop w base_url ((policy_name, possible_urls) # cats) lg =
     (let (found, lg1) = probe_policy w base_url policy_name possible_urls lg;
          (others, lg2) = policies_loop w base_url cats lg1
      in ((policy_name, found) # others, lg2))"

definition extract_policies :: "world \<Rightarrow> string \<Rightarrow> log \<Rightarrow> (string \<times> policy option) list \<times> log" where
  "extract_policies w base_url lg = policies_loop w base_url policy_urls lg"

text \<open>\<^verbatim>\<open>policies.get(name)\<close> on the returned dictionary.\<close>

definition policy_get :: "(string \<times> policy option) list \<Rightarrow> string \<Rightarrow> policy option" where
  "policy_get policies name = (case map_of policies name of Some p \<Rightarrow> p | None \<Rightarrow> None)"

text \<open>
  \<^verbatim>\<open>get_hero_products\<close>: the handles in the anchors whose target contains \<^verbatim>\<open>/products/\<close>,
  collected into a set, of which the first ten in iteration order are returned.
\<close>

definition hero_handle_candidates :: "soup \<Rightarrow> string list" where
  "hero_handle_candidates sp =
     concat (map (\<lambda>href. if href = [] then []
                          else case re_search ''/products/'' [[]] slug_char href of
                                 Some g \<Rightarrow> [g]
                               | None \<Rightarrow> [])
                 (filter (\<lambda>href. str_contains href ''/products/'') (doc_anchors sp)))"

definition get_hero_products :: "world \<Rightarrow> soup \<Rightarrow> string \<Rightarrow> string list" where
  "get_hero_products w sp base_url = take 10 (set_order w (hero_handle_candidates sp))"

section \<open>The extractor (insights_extractor.py)\<close>

text \<open>
  The loop of \<^verbatim>\<open>_extract_products\<close> over the feed entries. An entry whose \<^verbatim>\<open>try\<close> block
  raises is skipped; the handler first logs \<^verbatim>\<open>product_data.get('id')\<close>, which itself raises
  (out of the loop) when the entry is not a JSON object, and the \<^verbatim>\<open>try\<close> block of such an
  entry always raises, since it calls \<^verbatim>\<open>product_data.get\<close> as well.
\<close>

fun products_loop :: "world \<Rightarrow> string \<Rightarrow> json list \<Rightarrow> exn + product list" where
  "products_loop w u [] = Inr []"
| "products_loop w u (product_data # rest) =
     (case product_data of
        JObj kvs \<Rightarrow>
          (case make_product w u kvs of
             Inl e \<Rightarrow> products_loop w u rest
           | Inr p \<Rightarrow>
               (case products_loop w u rest of
                  Inl e \<Rightarrow> Inl e
                | Inr ps \<Rightarrow> Inr (p # ps)))
      | _ \<Rightarrow> Inl (Exn ''AttributeError''
                (quoted (type_name product_data) @ '' object has no attribute '' @ quoted ''get'')))"

definition extract_products :: "world \<Rightarrow> string \<Rightarrow> log \<Rightarrow> (exn + product list) \<times> log" where
  "extract_products w u lg =
     (let (json_products, lg1) = get_products_json w u lg
      in case json_products of
           Inl e \<Rightarrow> (Inl e, lg1)
         | Inr data \<Rightarrow>
             (case has_products data of
                Inl e \<Rightarrow> (Inl e, lg1)
              | Inr False \<Rightarrow> (Inr [], lg1)
              | Inr True \<Rightarrow>
                  (case data of
                     None \<Rightarrow> (Inr [], lg1)
                   | Some j \<Rightarrow>
                       (case py_getitem j ''products'' of
                          Inl e \<Rightarrow> (Inl e, lg1)
                        | Inr entries \<Rightarrow>
                            (case py_iter entries of
                               Inl e \<Rightarrow> (Inl e, lg1)
                             | Inr items \<Rightarrow> (products_loop w u items, lg1))))))"

text \<open>\<^verbatim>\<open>_get_products_by_handles\<close>: a product without a handle is in no set of strings.\<close>

definition get_products_by_handles :: "product list \<Rightarrow> string list \<Rightarrow> product list" where
  "get_products_by_handles products handles =
     filter (\<lambda>p. case handle p of None \<Rightarrow> False | Some h \<Rightarrow> h \<in> set handles) products"

text \<open>
  The five assignments that follow \<^verbatim>\<open>extract_policies\<close>: a category that was found
  replaces the field, a category that was not leaves it as it is.
\<close>

definition keep_or :: "policy option \<Rightarrow> policy option \<Rightarrow> policy option" where
  "keep_or found old = (case found of Some p \<Rightarrow> Some p | None \<Rightarrow> old)"

definition store_policies :: "(string \<times> policy option) list \<Rightarrow> brand_context \<Rightarrow> brand_context" where
  "store_policies policies_data bc =
     bc\<lparr> privacy_policy := keep_or (policy_get policies_data ''privacy_policy'') (privacy_policy bc),
         return_policy := keep_or (policy_get policies_data ''return_policy'') (return_policy bc),
         refund_policy := keep_or (policy_get policies_data ''refund_policy'') (refund_policy bc),
         terms_of_service :=
           keep_or (policy_get policies_data ''terms_of_service'') (terms_of_service bc),
         shipping_policy :=
           keep_or (policy_get policies_data ''shipping_policy'') (shipping_policy bc) \<rparr>"

text \<open>
  The body of the \<^verbatim>\<open>try\<close> block of \<^verbatim>\<open>extract_all_insights\<close>, statement by statement. It
  returns the exception that ended it, if any, with the context as the statements before
  had left it, and the log.
\<close>

definition extract_stages ::
  "world \<Rightarrow> string \<Rightarrow> soup \<Rightarrow> brand_context \<Rightarrow> log \<Rightarrow> exn option \<times> brand_context \<times> log" where
  "extract_stages w u sp bc0 lg =
     (case doc_brand_info sp of
        Inl e \<Rightarrow> (Some e, bc0, lg)
      | Inr brand_info \<Rightarrow>
     (let bc1 = bc0\<lparr> brand_name := fst brand_info, about_brand := snd brand_info \<rparr>;
          (products_data, lg1) = extract_products w u lg
      in case products_data of
           Inl e \<Rightarrow> (Some e, bc1, lg1)
         | Inr products \<Rightarrow>
     (let bc2 = bc1\<lparr> product_catalog := products, total_products := int (length products) \<rparr>;
          hero_product_handles = get_hero_products w sp u;
          bc3 = bc2\<lparr> hero_products := get_products_by_handles products hero_product_handles \<rparr>
      in case extract_social_links w sp u of
           Inl e \<Rightarrow> (Some e, bc3, lg1)
         | Inr social_links \<Rightarrow>
     (let bc4 = bc3\<lparr> social_handles := social_links \<rparr>
      in case doc_contact_info sp of
           Inl e \<Rightarrow> (Some e, bc4, lg1)
         | Inr contact_data \<Rightarrow>
     (let bc5 = bc4\<lparr> contact_info := contact_data \<rparr>
      in case doc_faqs sp of
           Inl e \<Rightarrow> (Some e, bc5, lg1)
         | Inr faqs_data \<Rightarrow>
     (let bc6 = bc5\<lparr> faqs := faqs_data \<rparr>;
          (policies_data, lg2) = extract_policies w u lg1;
          bc7 = store_policies policies_data bc6
      in case doc_important_links sp u of
           Inl e \<Rightarrow> (Some e, bc7, lg2)
         | Inr links_data \<Rightarrow>
     (let bc8 = bc7\<lparr> important_links := links_data \<rparr>;
          bc9 = bc8\<lparr> currency := doc_currency sp, country := doc_country sp \<rparr>;
          bc10 = bc9\<lparr> extraction_notes :=
                        extraction_notes bc9 @ [''Successfully extracted data from '' @ u],
                      extraction_success := True \<rparr>
      in (None, bc10, lg2))))))))"

definition not_shopify_error :: exn where
  "not_shopify_error =
     Exn ''ValueError'' ''The provided URL does not appear to be a Shopify store''"

definition no_content_error :: exn where
  "no_content_error = Exn ''Exception'' ''Could not fetch website content''"

text \<open>\<^verbatim>\<open>if not website_url.startswith(('http://', 'https://'))\<close>.\<close>

definition with_protocol :: "string \<Rightarrow> string" where
  "with_protocol u =
     (if starts_with u ''http://'' \<or> starts_with u ''https://'' then u else ''https://'' @ u)"

definition extract_all_insights :: "world \<Rightarrow> string \<Rightarrow> log \<Rightarrow> (exn + brand_context) \<times> log" where
  "extract_all_insights w website_url0 lg =
     (let u = with_protocol website_url0;
          (shopify, lg1) = is_shopify_store w u lg
      in if \<not> shopify then (Inl not_shopify_error, lg1)
         else
           (let brand_context0 = new_brand_context u (clock w lg1);
                (page, lg2) = get_page_content w u lg1
            in case page of
                 Inl e \<Rightarrow> (Inl e, lg2)
               | Inr None \<Rightarrow> (Inl no_content_error, lg2)
               | Inr (Some sp) \<Rightarrow>
                   (case extract_stages w u sp brand_context0 lg2 of
                      (None, bc, lg3) \<Rightarrow> (Inr bc, lg3)
                    | (Some e, bc, lg3) \<Rightarrow>
                        (Inr (bc\<lparr> extraction_success := False,
                                  extraction_notes :=
                                    extraction_notes bc
                                    @ [''Partial extraction due to error: '' @ exn_msg e] \<rparr>),
                         lg3))))"

section \<open>Parsing a float (the built-in \<^verbatim>\<open>float\<close> on a string)\<close>

definition is_digit :: "char \<Rightarrow> bool" where
  "is_digit c = (let n = (of_char c :: nat) in 48 \<le> n \<and> n \<le> 57)"

text \<open>
  The longest prefix that is a digit part (digits, single underscores allowed between
  two digits), returned without its underscores, and the rest of the string.
\<close>

fun digitpart :: "string \<Rightarrow> string \<times> string" where
  "digitpart [] = ([], [])"
| "digitpart [c] = (if is_digit c then ([c], []) else ([], [c]))"
| "digitpart (c # d # cs) =
     (if is_digit c
      then (if d = CHR ''_'' \<and> cs \<noteq> [] \<and> is_digit (hd cs)
            then (let (ds, r) = digitpart cs in (c # ds, r))
            else (let (ds, r) = digitpart (d # cs) in (c # ds, r)))
      else ([], c # d # cs))"

fun int_of_digits :: "int \<Rightarrow> string \<Rightarrow> int" where
  "int_of_digits acc [] = acc"
| "int_of_digits acc (c # cs) = int_of_digits (10 * acc + (of_char c - 48)) cs"

text \<open>
  The exponent part: empty, or \<^verbatim>\<open>e\<close>, an optional sign and a digit part. \<open>None\<close> when the
  text is neither.
\<close>

definition parse_exponent :: "string \<Rightarrow> int option" where
  "parse_exponent s =
     (case s of
        [] \<Rightarrow> Some 0
      | c # cs \<Rightarrow>
          if c = CHR ''e'' \<or> c = CHR ''E''
          then (let neg = (cs \<noteq> [] \<and> hd cs = CHR ''-'');
                    body = (if cs \<noteq> [] \<and> (hd cs = CHR ''-'' \<or> hd cs = CHR ''+'') then tl cs else cs);
                    (ds, r) = digitpart body
                in if ds = [] \<or> r \<noteq> [] then None
                   else Some (if neg then - int_of_digits 0 ds else int_of_digits 0 ds))
          else None)"

text \<open>An unsigned decimal number, as the fraction \<open>p / q\<close> it denotes.\<close>

definition parse_decimal :: "string \<Rightarrow> (int \<times> int) option" where
  "parse_decimal s =
     (let (ip, r1) = digitpart s;
          (fp, r2) = (if r1 \<noteq> [] \<and> hd r1 = CHR ''.'' then digitpart (tl r1) else ([], r1))
      in if ip = [] \<and> fp = [] then None
         else case parse_exponent r2 of
                None \<Rightarrow> None
              | Some ex \<Rightarrow>
                  (let mant = int_of_digits 0 (ip @ fp);
                       sh = ex - int (length fp)
                   in Some (if 0 \<le> sh then (mant * 10 ^ nat sh, 1) else (mant, 10 ^ nat (- sh)))))"

text \<open>\<^verbatim>\<open>float(s)\<close> for a string without surrounding white space; \<open>None\<close> is \<^verbatim>\<open>ValueError\<close>.\<close>

definition py_float :: "string \<Rightarrow> pyfloat option" where
  "py_float s =
     (let neg = (s \<noteq> [] \<and> hd s = CHR ''-'');
          body = (if s \<noteq> [] \<and> (hd s = CHR ''-'' \<or> hd s = CHR ''+'') then tl s else s)
      in if lower body = ''inf'' \<or> lower body = ''infinity'' then Some (if neg then NInf else PInf)
         else if lower body = ''nan'' then Some NaN
         else case parse_decimal body of
                None \<Rightarrow> None
              | Some (p, q) \<Rightarrow> Some (to_float neg p q))"

text \<open>Whether a float lies in the closed interval from 0.0 to 1.0.\<close>

definition in_unit_interval :: "pyfloat \<Rightarrow> bool" where
  "in_unit_interval x = (\<not> float_lt_int x 0 \<and> \<not> int_lt_float 1 x \<and> x \<noteq> NaN)"

section \<open>The text-structuring service (llm_service.py)\<close>

text \<open>
  The summary of a brand that goes into a prompt, and the service: whether it is enabled
  (an API key is configured), and the outcome of each chat request, which is the
  \<^verbatim>\<open>content\<close> of the first choice, or an exception (from the request or from reading the
  reply). An outcome depends on the log, and each request is logged under \<open>chat_endpoint\<close>.
\<close>

record brand_summary =
  summary_name :: "string option"
  summary_products :: "string option list"
  summary_description :: string

record llm_service =
  enabled :: bool
  chat_similarity :: "log \<Rightarrow> brand_summary \<Rightarrow> brand_summary \<Rightarrow> exn + string"
  chat_search_terms :: "log \<Rightarrow> brand_summary \<Rightarrow> exn + string"

definition chat_endpoint :: string where
  "chat_endpoint = ''openai.ChatCompletion.create''"

text \<open>
  The summary dictionary: \<^verbatim>\<open>brand_data.get('about_brand', '')[:200]\<close> raises \<^verbatim>\<open>TypeError\<close>
  when the brand has no description, for the key is present with the value \<^verbatim>\<open>None\<close>.
\<close>

definition summarize :: "nat \<Rightarrow> brand_context \<Rightarrow> exn + brand_summary" where
  "summarize n bc =
     (case about_brand bc of
        None \<Rightarrow> Inl (Exn ''TypeError'' (quoted ''NoneType'' @ '' object is not subscriptable''))
      | Some d \<Rightarrow>
          Inr \<lparr> summary_name = brand_name bc,
                summary_products = map product_type (take n (product_catalog bc)),
                summary_description = take 200 d \<rparr>)"

definition analyze_competitor_similarity ::
  "llm_service \<Rightarrow> brand_context \<Rightarrow> brand_context \<Rightarrow> log \<Rightarrow> pyfloat \<times> log" where
  "analyze_competitor_similarity llm brand1_data brand2_data lg =
     (if \<not> enabled llm then (lit_0_0, lg)
      else case summarize 10 brand1_data of
             Inl e \<Rightarrow> (lit_0_0, lg)
           | Inr brand1_summary \<Rightarrow>
               (case summarize 10 brand2_data of
                  Inl e \<Rightarrow> (lit_0_0, lg)
                | Inr brand2_summary \<Rightarrow>
                    (case chat_similarity llm lg brand1_summary brand2_summary of
                       Inl e \<Rightarrow> (lit_0_0, lg @ [chat_endpoint])
                     | Inr reply \<Rightarrow>
                         (case py_float (strip reply) of
                            None \<Rightarrow> (lit_0_0, lg @ [chat_endpoint])
                          | Some x \<Rightarrow> (x, lg @ [chat_endpoint])))))"

definition generate_competitor_search_terms ::
  "world \<Rightarrow> llm_service \<Rightarrow> brand_context \<Rightarrow> log \<Rightarrow> json list \<times> log" where
  "generate_competitor_search_terms w llm brand_data lg =
     (if \<not> enabled llm then ([], lg)
      else case summarize 5 brand_data of
             Inl e \<Rightarrow> ([], lg)
           | Inr brand_summary \<Rightarrow>
               (case chat_search_terms llm lg brand_summary of
                  Inl e \<Rightarrow> ([], lg @ [chat_endpoint])
                | Inr reply \<Rightarrow>
                    (case json_loads w (strip reply) of
                       Inr (JArr search_terms) \<Rightarrow> (search_terms, lg @ [chat_endpoint])
                     | _ \<Rightarrow> ([], lg @ [chat_endpoint]))))"

section \<open>The competitor service (competitor_service.py)\<close>

text \<open>The dictionary \<^verbatim>\<open>shopify_stores_by_category\<close>, in its insertion order.\<close>

definition shopify_stores_by_category :: "(string \<times> string list) list" where
  "shopify_stores_by_category =
     [(''beauty'', [''https://colourpop.com'', ''https://jeffreestarcosmetics.com'',
                    ''https://fentybeauty.com'', ''https://glossier.com'']),
      (''fashion'', [''https://fashionnova.com'', ''https://gymshark.com'',
                     ''https://cupshe.com'', ''https://shein.com'']),
      (''cosmetics'', [''https://colourpop.com'', ''https://jeffreestarcosmetics.com'',
                       ''https://rarebeauty.com'']),
      (''clothing'', [''https://fashionnova.com'', ''https://memy.co.in'',
                      ''https://gymshark.com'']),
      (''accessories'', [''https://pandora.net'', ''https://danielwellington.com''])]"

text \<open>The URLs one search term contributes: two from every category it matches.\<close>

definition urls_for_term :: "string \<Rightarrow> string list" where
  "urls_for_term term_lower =
     concat (map (\<lambda>(cat, urls).
                    if list_ex (\<lambda>keyword. str_contains term_lower keyword)
                         [cat, ''women'', ''men'', ''apparel'', ''makeup'']
                    then take 2 urls else [])
                 shopify_stores_by_category)"

text \<open>
  The loop over the search terms: \<^verbatim>\<open>term.lower()\<close> raises \<^verbatim>\<open>AttributeError\<close> on a term that
  is not a string (the service may return any JSON list).
\<close>

fun urls_for_terms :: "json list \<Rightarrow> exn + string list" where
  "urls_for_terms [] = Inr []"
| "urls_for_terms (t # ts) =
     (case t of
        JStr term \<Rightarrow>
          (case urls_for_terms ts of
             Inl e \<Rightarrow> Inl e
           | Inr rest \<Rightarrow> Inr (urls_for_term (lower term) @ rest))
      | _ \<Rightarrow> Inl (Exn ''AttributeError''
                (quoted (type_name t) @ '' object has no attribute '' @ quoted ''lower'')))"

definition find_competitor_urls :: "world \<Rightarrow> json list \<Rightarrow> int \<Rightarrow> exn + string list" where
  "find_competitor_urls w search_terms max_results =
     (case urls_for_terms search_terms of
        Inl e \<Rightarrow> Inl e
      | Inr competitor_urls \<Rightarrow> Inr (slice_to max_results (set_order w competitor_urls)))"

text \<open>\<^verbatim>\<open>re.findall(r'\b\w+\b', s)\<close>: the maximal runs of word characters.\<close>

fun words_from :: "string \<Rightarrow> string \<Rightarrow> string list" where
  "words_from cur [] = (if cur = [] then [] else [cur])"
| "words_from cur (c # cs) =
     (if is_word_char c then words_from (cur @ [c]) cs
      else if cur = [] then words_from [] cs
      else cur # words_from [] cs)"

definition findall_words :: "string \<Rightarrow> string list" where
  "findall_words s = words_from [] s"

definition generic_terms :: "string list" where
  "generic_terms = [''fashion'', ''beauty'', ''cosmetics'', ''clothing'', ''accessories'']"

text \<open>The lower-cased, non-empty product types of the given products, in their order.\<close>

definition lowered_types :: "product list \<Rightarrow> string list" where
  "lowered_types ps =
     concat (map (\<lambda>p. case product_type p of
                          None \<Rightarrow> []
                        | Some t \<Rightarrow> if t = [] then [] else [lower t]) ps)"

definition generate_fallback_search_terms :: "world \<Rightarrow> brand_context \<Rightarrow> string list" where
  "generate_fallback_search_terms w pb =
     (let from_types =
            (if product_catalog pb \<noteq> []
             then set_order w (lowered_types (take 10 (product_catalog pb))) else []);
          from_name =
            (case brand_name pb of
               None \<Rightarrow> []
             | Some n \<Rightarrow> if n = [] then [] else take 3 (findall_words (lower n)))
      in take 8 (from_types @ from_name @ take 2 generic_terms))"

text \<open>
  \<^verbatim>\<open>', '.join(search_terms[:5])\<close>: it raises on the first item that is not a string, naming
  its position.
\<close>

fun strings_from :: "int \<Rightarrow> json list \<Rightarrow> exn + string list" where
  "strings_from i [] = Inr []"
| "strings_from i (t # ts) =
     (case t of
        JStr x \<Rightarrow> (case strings_from (i + 1) ts of Inl e \<Rightarrow> Inl e | Inr xs \<Rightarrow> Inr (x # xs))
      | _ \<Rightarrow> Inl (Exn ''TypeError'' (''sequence item '' @ str_int i
                                    @ '': expected str instance, '' @ type_name t @ '' found'')))"

definition strings_of :: "json list \<Rightarrow> exn + string list" where
  "strings_of ts = strings_from 0 ts"

text \<open>\<^verbatim>\<open>brand.brand_name or brand.website_url\<close>.\<close>

definition display_name :: "brand_context \<Rightarrow> string" where
  "display_name bc =
     (case brand_name bc of
        None \<Rightarrow> website_url bc
      | Some n \<Rightarrow> if n = [] then website_url bc else n)"

definition create_analysis_summary ::
  "world \<Rightarrow> brand_context \<Rightarrow> brand_context list \<Rightarrow> json list \<Rightarrow> exn + string" where
  "create_analysis_summary w pb comps search_terms =
     (case strings_of (take 5 search_terms) of
        Inl e \<Rightarrow> Inl e
      | Inr shown \<Rightarrow>
          (let summary_parts =
                 [''Competitor Analysis for '' @ display_name pb,
                  ''Search terms used: '' @ join '', '' shown,
                  ''Found '' @ str_int (int (length comps)) @ '' competitor(s)'']
           in if comps = [] then Inr (join '' | '' summary_parts)
              else case int_truediv (sum_list (map total_products comps)) (int (length comps)) of
                     Inl e \<Rightarrow> Inl e
                   | Inr avg \<Rightarrow>
                       Inr (join '' | ''
                             (summary_parts
                              @ [''Competitors analyzed: '' @ join '', '' (map display_name comps),
                                 ''Product catalog size - Primary: ''
                                 @ str_int (total_products pb)
                                 @ '', Competitors avg: '' @ format_0f avg]))))"

text \<open>
  The loop of \<^verbatim>\<open>analyze_competitors\<close> over the candidate URLs. Whatever a candidate's
  \<^verbatim>\<open>try\<close> block raises is caught and the loop goes on with the next candidate. The pause
  after each analysed candidate is not modelled.
\<close>

fun analyze_candidates ::
  "world \<Rightarrow> llm_service \<Rightarrow> brand_context \<Rightarrow> string list \<Rightarrow> log \<Rightarrow> brand_context list \<times> log" where
  "analyze_candidates w llm pb [] lg = ([], lg)"
| "analyze_candidates w llm pb (u # us) lg =
     (let (res, lg1) = extract_all_insights w u lg
      in case res of
           Inl e \<Rightarrow> analyze_candidates w llm pb us lg1
         | Inr competitor_analysis \<Rightarrow>
             (let (ca, lg2) =
                    (if enabled llm
                     then (let (similarity, lg') =
                                 analyze_competitor_similarity llm pb competitor_analysis lg1
                           in (competitor_analysis\<lparr> extraction_notes :=
                                  extraction_notes competitor_analysis
                                  @ [''Similarity score: '' @ format_2f similarity] \<rparr>, lg'))
                     else (competitor_analysis, lg1));
                  (others, lg3) = analyze_candidates w llm pb us lg2
              in (ca # others, lg3)))"

text \<open>The \<^verbatim>\<open>try\<close> block of \<^verbatim>\<open>analyze_competitors\<close>, and the function with its handler.\<close>

definition analyze_competitors_try ::
  "world \<Rightarrow> llm_service \<Rightarrow> brand_context \<Rightarrow> int \<Rightarrow> log \<Rightarrow> (exn + competitor_analysis) \<times> log" where
  "analyze_competitors_try w llm pb max_competitors lg =
     (let (from_llm, lg1) =
            (if enabled llm then generate_competitor_search_terms w llm pb lg else ([], lg));
          search_terms =
            (if from_llm = [] then map JStr (generate_fallback_search_terms w pb) else from_llm)
      in case find_competitor_urls w search_terms (max_competitors * 2) of
           Inl e \<Rightarrow> (Inl e, lg1)
         | Inr found \<Rightarrow>
             (let competitor_urls = filter (\<lambda>u. u \<noteq> website_url pb) found;
                  (comps, lg2) =
                    analyze_candidates w llm pb (slice_to max_competitors competitor_urls) lg1
              in case create_analysis_summary w pb comps search_terms of
                   Inl e \<Rightarrow> (Inl e, lg2)
                 | Inr summary \<Rightarrow>
                     (Inr \<lparr> primary_brand = pb, competitors = comps,
                            analysis_summary = Some summary \<rparr>, lg2)))"

definition analyze_competitors ::
  "world \<Rightarrow> llm_service \<Rightarrow> brand_context \<Rightarrow> int \<Rightarrow> log \<Rightarrow> (exn + competitor_analysis) \<times> log" where
  "analyze_competitors w llm pb max_competitors lg =
     (case analyze_competitors_try w llm pb max_competitors lg of
        (Inr result, lg1) \<Rightarrow> (Inr result, lg1)
      | (Inl e, lg1) \<Rightarrow>
          (Inr \<lparr> primary_brand = pb, competitors = [],
                 analysis_summary = Some (''Competitor analysis failed: '' @ exn_msg e) \<rparr>, lg1))"

text \<open>
  \<^verbatim>\<open>get_market_insights\<close>. An exception inside the \<^verbatim>\<open>try\<close> block leaves the dictionary as the
  statements before had filled it.
\<close>

record insights =
  market_position :: string
  product_diversity :: string
  price_positioning :: string
  social_presence :: string

definition unknown_insights :: insights where
  "unknown_insights =
     \<lparr> market_position = ''unknown'', product_diversity = ''unknown'',
       price_positioning = ''unknown'', social_presence = ''unknown'' \<rparr>"

definition classify_catalog :: "int \<Rightarrow> pyfloat \<Rightarrow> string" where
  "classify_catalog primary_products avg_competitor_products =
     (if float_lt_int (fl_mul avg_competitor_products lit_1_2) primary_products
      then ''large_catalog''
      else if int_lt_float primary_products (fl_mul avg_competitor_products lit_0_8)
      then ''focused_catalog''
      else ''average_catalog'')"

definition classify_social :: "int \<Rightarrow> pyfloat \<Rightarrow> string" where
  "classify_social primary_social_count avg_competitor_social =
     (if float_lt_int avg_competitor_social primary_social_count then ''strong''
      else if int_lt_float primary_social_count avg_competitor_social then ''weak''
      else ''average'')"

definition classify_diversity :: "string list \<Rightarrow> string list \<Rightarrow> string" where
  "classify_diversity primary_types competitor_types =
     (let overlap = card (set primary_types \<inter> set competitor_types);
          unique_primary = card (set primary_types - set competitor_types)
      in if unique_primary > overlap then ''unique_offerings''
         else if overlap > unique_primary then ''similar_to_market''
         else ''balanced_portfolio'')"

definition get_market_insights :: "brand_context \<Rightarrow> brand_context list \<Rightarrow> insights" where
  "get_market_insights pb comps =
     (if comps = [] then unknown_insights
      else case int_truediv (sum_list (map total_products comps)) (int (length comps)) of
             Inl e \<Rightarrow> unknown_insights
           | Inr avg_competitor_products \<Rightarrow>
       (let insights1 = unknown_insights\<lparr> market_position :=
                          classify_catalog (total_products pb) avg_competitor_products \<rparr>
        in case int_truediv (sum_list (map (\<lambda>c. int (length (social_handles c))) comps))
                  (int (length comps)) of
             Inl e \<Rightarrow> insights1
           | Inr avg_competitor_social \<Rightarrow>
       (let insights2 = insights1\<lparr> social_presence :=
                          classify_social (int (length (social_handles pb))) avg_competitor_social \<rparr>
        in insights2\<lparr> product_diversity :=
             classify_diversity (lowered_types (product_catalog pb))
               (lowered_types (concat (map product_catalog comps))) \<rparr>)))"

section \<open>Concrete inputs\<close>

text \<open>
  A small store used to instantiate the theorems: a feed of three products with the handles
  \<open>a\<close>, \<open>b\<close> and \<open>c\<close>, and a homepage whose anchors point to the products \<open>a\<close>, \<open>c\<close> and
  \<open>z\<close> and, twice, to one Instagram profile. Every page request returns that homepage.
\<close>

definition demo_entry :: "string \<Rightarrow> string \<Rightarrow> json" where
  "demo_entry h t = JObj [(''title'', JStr h), (''handle'', JStr h), (''product_type'', JStr t)]"

definition demo_feed :: json where
  "demo_feed =
     JObj [(''products'',
            JArr [demo_entry ''a'' ''lipstick'', demo_entry ''b'' ''lipstick'',
                  demo_entry ''c'' ''eyeshadow''])]"

definition demo_make_product :: "string \<Rightarrow> (string \<times> json) list \<Rightarrow> exn + product" where
  "demo_make_product u kvs =
     (case (map_of kvs ''title'', map_of kvs ''handle'', map_of kvs ''product_type'') of
        (Some (JStr t), Some (JStr h), Some (JStr ty)) \<Rightarrow>
          Inr \<lparr> product_id = Some [], title = t, description = Some [], price = None,
                compare_at_price = None, vendor = Some [], product_type = Some ty,
                handle = Some h, url = Some (u @ ''/products/'' @ h), images = [],
                variants = [], tags = [], available = Some False \<rparr>
      | _ \<Rightarrow> Inl (Exn ''ValidationError'' ''1 validation error for Product''))"

definition demo_soup :: soup where
  "demo_soup =
     \<lparr> doc_generator_meta = False, doc_shopify_script = False,
       doc_shopify_text = False, doc_shopify_link = False,
       doc_anchors = [''/products/a'', ''/products/c?ref=home'', ''/products/z'',
                      ''https://instagram.com/brandx'', ''https://instagram.com/brandx''],
       doc_content_block = None,
       doc_brand_info = Inr (Some ''ColourPop Cosmetics'', None),
       doc_contact_info = Inr \<lparr> emails = [], phone_numbers = [], address = None \<rparr>,
       doc_faqs = Inr [],
       doc_important_links = (\<lambda>base. Inr []),
       doc_currency = None,
       doc_country = None \<rparr>"

definition demo_world :: world where
  "demo_world =
     \<lparr> http_page = (\<lambda>lg u. Inr (Some demo_soup)),
       http_feed = (\<lambda>lg u. Inr (Some demo_feed)),
       urljoin = (\<lambda>base path. Inr (base @ path)),
       set_order = remdups,
       clock = length,
       make_product = demo_make_product,
       json_loads = (\<lambda>s. Inl (Exn ''JSONDecodeError'' ''Expecting value'')) \<rparr>"

text \<open>The same store with a homepage on which the FAQ stage raises.\<close>

definition failing_soup :: soup where
  "failing_soup = demo_soup\<lparr> doc_faqs := Inl (Exn ''ValidationError'' ''answer: field required'') \<rparr>"

definition failing_world :: world where
  "failing_world = demo_world\<lparr> http_page := (\<lambda>lg u. Inr (Some failing_soup)) \<rparr>"



text \<open>
  The same store where every page has a content block of exactly 100 characters, and
  where every page has one of 2500 characters.
\<close>

definition hundred_soup :: soup where
  "hundred_soup = demo_soup\<lparr> doc_content_block := Some (replicate 100 (CHR ''x'')) \<rparr>"

definition hundred_world :: world where
  "hundred_world = demo_world\<lparr> http_page := (\<lambda>lg u. Inr (Some hundred_soup)) \<rparr>"

definition long_soup :: soup where
  "long_soup = demo_soup\<lparr> doc_content_block := Some (replicate 2500 (CHR ''x'')) \<rparr>"

definition long_world :: world where
  "long_world = demo_world\<lparr> http_page := (\<lambda>lg u. Inr (Some long_soup)) \<rparr>"

text \<open>A document with two anchors that point to the same Instagram profile.\<close>

definition twin_soup :: soup where
  "twin_soup =
     demo_soup\<lparr> doc_anchors := [''https://instagram.com/brandx'', ''https://instagram.com/brandx''] \<rparr>"

text \<open>
  A brand with a description, a service that answers every similarity request with
  \<^verbatim>\<open>1.5\<close>, and one that answers with words.
\<close>

definition described_brand :: brand_context where
  "described_brand =
     (new_brand_context ''https://shop.example'' 0)\<lparr> about_brand := Some ''Colour cosmetics'' \<rparr>"

definition eager_llm :: llm_service where
  "eager_llm =
     \<lparr> enabled = True,
       chat_similarity = (\<lambda>lg s1 s2. Inr '' 1.5 ''),
       chat_search_terms = (\<lambda>lg s. Inr ''[]'') \<rparr>"

definition vague_llm :: llm_service where
  "vague_llm =
     \<lparr> enabled = True,
       chat_similarity = (\<lambda>lg s1 s2. Inr ''very similar''),
       chat_search_terms = (\<lambda>lg s. Inr ''[]'') \<rparr>"

text \<open>A brand with a given number of products.\<close>

definition brand_with :: "int \<Rightarrow> brand_context" where
  "brand_with n = (new_brand_context ''https://shop.example'' 0)\<lparr> total_products := n \<rparr>"

text \<open>The same store where the service's reply decodes to a list that holds a number.\<close>

definition numeric_terms_world :: world where
  "numeric_terms_world = demo_world\<lparr> json_loads := (\<lambda>s. Inr (JArr [JInt 1])) \<rparr>"

text \<open>
  A document whose anchors show the cases of the social patterns: upper case, a relative
  target, an empty target, a target that two patterns match, the optional parts of the
  TikTok, YouTube and LinkedIn patterns, and a repeated anchor.
\<close>

definition social_soup :: soup where
  "social_soup =
     demo_soup\<lparr> doc_anchors :=
       [''https://Instagram.com/BrandX/'',
        ''/out?to=twitter.com/brandx'',
        [],
        ''https://www.tiktok.com/@brandx?lang=en'',
        ''https://youtube.com/channel/UC123'',
        ''https://youtube.com/c/'',
        ''https://linkedin.com/in/'',
        ''https://facebook.com/sharer?u=https://instagram.com/brandx'',
        ''https://instagram.com/brandx'',
        ''https://instagram.com/brandx'',
        ''mailto:hi@shop.example'',
        ''https://tiktok.com/@/x'',
        ''https://pinterest.com/?q=1 pinterest.com/late''] \<rparr>"

text \<open>
  The same store where the feed of \<^verbatim>\<open>gymshark.com\<close> cannot be fetched (and the homepage has
  no platform marker), and a service that is not enabled.
\<close>

definition mixed_world :: world where
  "mixed_world =
     demo_world\<lparr> http_feed :=
       (\<lambda>lg u. if u = ''https://gymshark.com/products.json'' then Inr None
                else Inr (Some demo_feed)) \<rparr>"

definition quiet_llm :: llm_service where
  "quiet_llm =
     \<lparr> enabled = False,
       chat_similarity = (\<lambda>lg s1 s2. Inl (Exn ''AuthenticationError'' ''No API key provided'')),
       chat_search_terms = (\<lambda>lg s. Inl (Exn ''AuthenticationError'' ''No API key provided'')) \<rparr>"

section \<open>The assembled context\<close>

lemma extract_stages_total:
  "total_products bc0 = int (length (product_catalog bc0)) \<Longrightarrow>
   extract_stages w u sp bc0 lg = (r, bc, lg') \<Longrightarrow>
   total_products bc = int (length (product_catalog bc))"
  by (auto simp: extract_stages_def store_policies_def Let_def split: sum.splits prod.splits)

lemma extract_stages_hero:
  "set (hero_products bc0) \<subseteq> set (product_catalog bc0) \<Longrightarrow>
   extract_stages w u sp bc0 lg = (r, bc, lg') \<Longrightarrow>
   set (hero_products bc) \<subseteq> set (product_catalog bc)"
  by (auto simp: extract_stages_def store_policies_def get_products_by_handles_def Let_def
      split: sum.splits prod.splits)

lemma extract_all_insights_unfold:
  assumes "is_shopify_store w (with_protocol u0) lg = (shopify, lg1)"
    and "get_page_content w (with_protocol u0) lg1 = (page, lg2)"
  shows "extract_all_insights w u0 lg =
     (if \<not> shopify then (Inl not_shopify_error, lg1)
      else case page of
             Inl e \<Rightarrow> (Inl e, lg2)
           | Inr None \<Rightarrow> (Inl no_content_error, lg2)
           | Inr (Some sp) \<Rightarrow>
               (case extract_stages w (with_protocol u0) sp
                       (new_brand_context (with_protocol u0) (clock w lg1)) lg2 of
                  (None, bc, lg3) \<Rightarrow> (Inr bc, lg3)
                | (Some e, bc, lg3) \<Rightarrow>
                    (Inr (bc\<lparr> extraction_success := False,
                              extraction_notes :=
                                extraction_notes bc
                                @ [''Partial extraction due to error: '' @ exn_msg e] \<rparr>),
                     lg3)))"
  by (simp add: extract_all_insights_def Let_def assms)

lemma extract_all_insights_Inr:
  assumes "fst (extract_all_insights w u0 lg) = Inr bc"
  obtains sp ts lg2 r bc' lg' where
    "extract_stages w (with_protocol u0) sp (new_brand_context (with_protocol u0) ts) lg2
       = (r, bc', lg')"
    and "product_catalog bc = product_catalog bc'"
    and "total_products bc = total_products bc'"
    and "hero_products bc = hero_products bc'"
proof -
  obtain shopify lg1 where s: "is_shopify_store w (with_protocol u0) lg = (shopify, lg1)"
    by force
  obtain page lg2 where p: "get_page_content w (with_protocol u0) lg1 = (page, lg2)"
    by force
  note unf = extract_all_insights_unfold [OF s p]
  from assms unf obtain sp where sp: "page = Inr (Some sp)" and sh: shopify
    by (auto split: sum.splits option.splits if_splits)
  obtain r bc' lg' where st:
    "extract_stages w (with_protocol u0) sp (new_brand_context (with_protocol u0) (clock w lg1)) lg2
       = (r, bc', lg')"
    by (metis prod_cases3)
  from assms unf sp sh st have "product_catalog bc = product_catalog bc'
      \<and> total_products bc = total_products bc' \<and> hero_products bc = hero_products bc'"
    by (cases r) auto
  with st that show thesis by blast
qed

text \<open>
  C1. Whenever \<^verbatim>\<open>extract_all_insights\<close> returns a context, with \<^verbatim>\<open>extraction_success\<close> true
  or false, its \<^verbatim>\<open>total_products\<close> is the length of its \<^verbatim>\<open>product_catalog\<close>.
\<close>

theorem total_products_is_catalog_length:
  assumes "fst (extract_all_insights w u0 lg) = Inr bc"
  shows "total_products bc = int (length (product_catalog bc))"
proof -
  from assms obtain sp ts lg2 r bc' lg' where
    st: "extract_stages w (with_protocol u0) sp (new_brand_context (with_protocol u0) ts) lg2
           = (r, bc', lg')"
    and eq: "product_catalog bc = product_catalog bc'" "total_products bc = total_products bc'"
    by (rule extract_all_insights_Inr)
  have "total_products bc' = int (length (product_catalog bc'))"
    by (rule extract_stages_total [OF _ st]) (simp add: new_brand_context_def)
  with eq show ?thesis by simp
qed

lemma demo_extraction_returns:
  "\<not> isl (fst (extract_all_insights demo_world ''shop.example'' []))"
  by code_simp

lemma demo_extraction_catalog:
  "length (product_catalog (projr (fst (extract_all_insights demo_world ''shop.example'' [])))) = 3"
  by code_simp

theorem total_products_is_catalog_length_witness:
  "\<exists>bc. fst (extract_all_insights demo_world ''shop.example'' []) = Inr bc
        \<and> length (product_catalog bc) = 3 \<and> total_products bc = 3"
proof -
  let ?bc = "projr (fst (extract_all_insights demo_world ''shop.example'' []))"
  have r: "fst (extract_all_insights demo_world ''shop.example'' []) = Inr ?bc"
    using demo_extraction_returns by simp
  from total_products_is_catalog_length [OF r] demo_extraction_catalog
  have "total_products ?bc = 3" by simp
  with r demo_extraction_catalog show ?thesis by blast
qed

text \<open>
  C2. Every hero product of a returned context has a handle that occurs among the handles
  of its product catalog. And for a catalog of three products with distinct handles
  \<open>a\<close>, \<open>b\<close>, \<open>c\<close> and the candidate handles \<open>a\<close>, \<open>c\<close>, \<open>z\<close> (in any order, with any
  repetition), \<^verbatim>\<open>_get_products_by_handles\<close> returns exactly the products \<open>a\<close> and \<open>c\<close>,
  \<open>z\<close> being dropped.
\<close>

theorem hero_products_in_catalog:
  "(fst (extract_all_insights w u0 lg) = Inr bc \<longrightarrow>
      (\<forall>p \<in> set (hero_products bc). handle p \<in> handle ` set (product_catalog bc)))
   \<and> (distinct [a, b, c, z] \<and> handle pa = Some a \<and> handle pb = Some b \<and> handle pc = Some c
        \<and> set hs = {a, c, z} \<longrightarrow>
      get_products_by_handles [pa, pb, pc] hs = [pa, pc])"
proof (intro conjI impI)
  assume r: "fst (extract_all_insights w u0 lg) = Inr bc"
  then obtain sp ts lg2 r' bc' lg' where
    st: "extract_stages w (with_protocol u0) sp (new_brand_context (with_protocol u0) ts) lg2
           = (r', bc', lg')"
    and eq: "product_catalog bc = product_catalog bc'" "hero_products bc = hero_products bc'"
    by (rule extract_all_insights_Inr)
  have "set (hero_products bc') \<subseteq> set (product_catalog bc')"
    by (rule extract_stages_hero [OF _ st]) (simp add: new_brand_context_def)
  with eq show "\<forall>p \<in> set (hero_products bc). handle p \<in> handle ` set (product_catalog bc)"
    by auto
next
  assume "distinct [a, b, c, z] \<and> handle pa = Some a \<and> handle pb = Some b \<and> handle pc = Some c
        \<and> set hs = {a, c, z}"
  then show "get_products_by_handles [pa, pb, pc] hs = [pa, pc]"
    by (auto simp: get_products_by_handles_def)
qed

lemma demo_extraction_heroes:
  "map handle (hero_products (projr (fst (extract_all_insights demo_world ''shop.example'' []))))
     = [Some ''a'', Some ''c'']"
  by code_simp

theorem hero_products_in_catalog_witness:
  "\<exists>bc. fst (extract_all_insights demo_world ''shop.example'' []) = Inr bc
        \<and> map handle (hero_products bc) = [Some ''a'', Some ''c'']
        \<and> Some ''a'' \<in> handle ` set (product_catalog bc)
        \<and> Some ''c'' \<in> handle ` set (product_catalog bc)
        \<and> get_products_by_handles
             [projr (demo_make_product [] [(''title'', JStr ''a''), (''handle'', JStr ''a''), (''product_type'', JStr [])]),
              projr (demo_make_product [] [(''title'', JStr ''b''), (''handle'', JStr ''b''), (''product_type'', JStr [])]),
              projr (demo_make_product [] [(''title'', JStr ''c''), (''handle'', JStr ''c''), (''product_type'', JStr [])])]
             [''z'', ''c'', ''a'', ''c'']
           = [projr (demo_make_product [] [(''title'', JStr ''a''), (''handle'', JStr ''a''), (''product_type'', JStr [])]),
              projr (demo_make_product [] [(''title'', JStr ''c''), (''handle'', JStr ''c''), (''product_type'', JStr [])])]"
proof -
  let ?bc = "projr (fst (extract_all_insights demo_world ''shop.example'' []))"
  let ?P = "\<lambda>h. projr (demo_make_product [] [(''title'', JStr h), (''handle'', JStr h), (''product_type'', JStr [])])"
  have r: "fst (extract_all_insights demo_world ''shop.example'' []) = Inr ?bc"
    using demo_extraction_returns by simp
  have h: "\<And>x. handle (?P x) = Some x"
    by (simp add: demo_make_product_def)
  note inst = hero_products_in_catalog [of demo_world "''shop.example''" "[]" ?bc
      "''a''" "''b''" "''c''" "''z''" "?P ''a''" "?P ''b''" "?P ''c''" "[''z'', ''c'', ''a'', ''c'']"]
  have sub: "\<forall>p \<in> set (hero_products ?bc). handle p \<in> handle ` set (product_catalog ?bc)"
    by (rule inst [THEN conjunct1, THEN mp, OF r])
  have hs: "handle ` set (hero_products ?bc) = {Some ''a'', Some ''c''}"
    using arg_cong [OF demo_extraction_heroes, of set] by simp
  have gen: "\<And>(f :: product \<Rightarrow> string option) A S x y.
      \<forall>p \<in> A. f p \<in> S \<Longrightarrow> f ` A = {x, y} \<Longrightarrow> x \<in> S \<and> y \<in> S"
  proof -
    fix f :: "product \<Rightarrow> string option" and A S x y
    assume a: "\<forall>p \<in> A. f p \<in> S" and b: "f ` A = {x, y}"
    have "x \<in> f ` A" "y \<in> f ` A"
      unfolding b by simp_all
    with a show "x \<in> S \<and> y \<in> S"
      by auto
  qed
  note m = gen [OF sub hs]
  have pre: "distinct [''a'', ''b'', ''c'', ''z''] \<and> handle (?P ''a'') = Some ''a''
      \<and> handle (?P ''b'') = Some ''b'' \<and> handle (?P ''c'') = Some ''c''
      \<and> set [''z'', ''c'', ''a'', ''c''] = {''a'', ''c'', ''z''}"
    unfolding h by auto
  note g = inst [THEN conjunct2, THEN mp, OF pre]
  show ?thesis
    by (rule exI [of _ ?bc]) (intro conjI r demo_extraction_heroes m [THEN conjunct1] m [THEN conjunct2] g)
qed









section \<open>The store check\<close>





section \<open>Policies\<close>

lemma policies_loop_lookup:
  "distinct (map fst cats) \<Longrightarrow> (name, paths) \<in> set cats \<Longrightarrow>
   \<exists>lg0. map_of (fst (policies_loop w base_url cats lg)) name
           = Some (fst (probe_policy w base_url name paths lg0))"
proof (induction cats arbitrary: lg)
  case Nil
  then show ?case by simp
next
  case (Cons c cats)
  obtain n ps where c: "c = (n, ps)" by (cases c)
  obtain found lg1 where f: "probe_policy w base_url n ps lg = (found, lg1)" by force
  obtain others lg2 where o: "policies_loop w base_url cats lg1 = (others, lg2)" by force
  show ?case
  proof (cases "name = n")
    case True
    with Cons.prems c have "paths = ps"
      by (auto simp: rev_image_eqI)
    with True c f o show ?thesis
      by (auto intro: exI [of _ lg])
  next
    case False
    with Cons.prems c have "distinct (map fst cats)" "(name, paths) \<in> set cats"
      by auto
    from Cons.IH [OF this, of lg1] obtain lg0 where
      "map_of (fst (policies_loop w base_url cats lg1)) name
         = Some (fst (probe_policy w base_url name paths lg0))"
      by blast
    with False c f o show ?thesis
      by auto
  qed
qed

text \<open>
  C4, as the code has it. In \<^verbatim>\<open>extract_policies\<close> every category holds what the loop over
  its candidate paths found. A candidate page whose content block has 100 characters or
  fewer (so 99, and 100 as well) is rejected: the loop goes on with the remaining
  candidates as if the page had not been there. One with 101 or more is accepted: its
  first 2000 characters are stored, and the loop ends with no request after this page's.
\<close>

theorem policy_needs_more_than_100_characters:
  "(\<forall>name paths. (name, paths) \<in> set policy_urls \<longrightarrow>
       (\<exists>lg0. policy_get (fst (extract_policies w base_url lg)) name
                = fst (probe_policy w base_url name paths lg0)))
   \<and> (urljoin w base_url url_path = Inr full_url \<and> http_page w lg full_url = Inr (Some sp)
        \<and> doc_content_block sp = Some content \<longrightarrow>
       (length content \<le> 100 \<longrightarrow>
          probe_policy w base_url policy_name (url_path # rest) lg
            = probe_policy w base_url policy_name rest (lg @ [full_url])
          \<and> probe_policy w base_url policy_name [url_path] lg = (None, lg @ [full_url]))
       \<and> (100 < length content \<longrightarrow>
          probe_policy w base_url policy_name (url_path # rest) lg
            = (Some \<lparr> policy_title = py_title (replace_underscores policy_name),
                      policy_content = take 2000 content,
                      policy_url = Some full_url \<rparr>, lg @ [full_url])
          \<and> length (take 2000 content) \<le> 2000))"
proof (intro conjI allI impI)
  fix name paths
  assume m: "(name, paths) \<in> set policy_urls"
  have d: "distinct (map fst policy_urls)"
    by (simp add: policy_urls_def)
  from policies_loop_lookup [OF d m, of w base_url lg]
  show "\<exists>lg0. policy_get (fst (extract_policies w base_url lg)) name
                = fst (probe_policy w base_url name paths lg0)"
    by (auto simp: policy_get_def extract_policies_def)
next
  assume "urljoin w base_url url_path = Inr full_url \<and> http_page w lg full_url = Inr (Some sp)
        \<and> doc_content_block sp = Some content" and "length content \<le> 100"
  then show "probe_policy w base_url policy_name (url_path # rest) lg
            = probe_policy w base_url policy_name rest (lg @ [full_url])"
    and "probe_policy w base_url policy_name [url_path] lg = (None, lg @ [full_url])"
    by (simp_all add: get_page_content_def)
next
  assume "urljoin w base_url url_path = Inr full_url \<and> http_page w lg full_url = Inr (Some sp)
        \<and> doc_content_block sp = Some content" and "100 < length content"
  then show "probe_policy w base_url policy_name (url_path # rest) lg
            = (Some \<lparr> policy_title = py_title (replace_underscores policy_name),
                      policy_content = take 2000 content,
                      policy_url = Some full_url \<rparr>, lg @ [full_url])"
    by (simp add: get_page_content_def)
next
  show "length (take 2000 content) \<le> 2000"
    by simp
qed

theorem hundred_characters_counterexample:
  "http_page hundred_world [] ''https://shop.example/pages/privacy-policy'' = Inr (Some hundred_soup)
   \<and> doc_content_block hundred_soup = Some (replicate 100 (CHR ''x''))
   \<and> length (replicate 100 (CHR ''x'')) = 100
   \<and> probe_policy hundred_world ''https://shop.example'' ''privacy_policy''
        [''/pages/privacy-policy''] []
      = (None, [''https://shop.example/pages/privacy-policy''])
   \<and> policy_get (fst (extract_policies hundred_world ''https://shop.example'' []))
        ''privacy_policy'' = None"
  by (simp add: hundred_world_def hundred_soup_def demo_world_def demo_soup_def
      get_page_content_def extract_policies_def policy_urls_def policy_get_def)

lemma return_policy_title:
  "py_title (replace_underscores ''return_policy'') = ''Return Policy''"
  by code_simp

theorem policy_needs_more_than_100_characters_witness:
  "probe_policy hundred_world ''https://shop.example'' ''privacy_policy''
       [''/pages/privacy-policy'', ''/privacy-policy''] []
     = probe_policy hundred_world ''https://shop.example'' ''privacy_policy''
         [''/privacy-policy''] [''https://shop.example/pages/privacy-policy'']
   \<and> probe_policy long_world ''https://shop.example'' ''return_policy''
       [''/pages/returns'', ''/pages/return-policy'', ''/returns''] []
     = (Some \<lparr> policy_title = ''Return Policy'',
               policy_content = replicate 2000 (CHR ''x''),
               policy_url = Some ''https://shop.example/pages/returns'' \<rparr>,
        [''https://shop.example/pages/returns''])
   \<and> (\<exists>lg0. policy_get (fst (extract_policies long_world ''https://shop.example'' []))
                ''return_policy''
              = fst (probe_policy long_world ''https://shop.example'' ''return_policy''
                       [''/pages/returns'', ''/pages/return-policy'', ''/returns''] lg0))"
proof -
  have h: "urljoin hundred_world ''https://shop.example'' ''/pages/privacy-policy''
        = Inr ''https://shop.example/pages/privacy-policy''
      \<and> http_page hundred_world [] ''https://shop.example/pages/privacy-policy''
        = Inr (Some hundred_soup)
      \<and> doc_content_block hundred_soup = Some (replicate 100 (CHR ''x''))"
    by (simp add: hundred_world_def hundred_soup_def demo_world_def)
  have hl: "length (replicate 100 (CHR ''x'')) \<le> 100"
    by simp
  note a = policy_needs_more_than_100_characters
      [where policy_name = "''privacy_policy''" and rest = "[''/privacy-policy'']",
       THEN conjunct2, THEN mp, OF h, THEN conjunct1, THEN mp, OF hl, THEN conjunct1]
  have l: "urljoin long_world ''https://shop.example'' ''/pages/returns''
        = Inr ''https://shop.example/pages/returns''
      \<and> http_page long_world [] ''https://shop.example/pages/returns'' = Inr (Some long_soup)
      \<and> doc_content_block long_soup = Some (replicate 2500 (CHR ''x''))"
    by (simp add: long_world_def long_soup_def demo_world_def)
  have ll: "100 < length (replicate 2500 (CHR ''x''))"
    by simp
  note b = policy_needs_more_than_100_characters
      [where policy_name = "''return_policy''" and rest = "[''/pages/return-policy'', ''/returns'']",
       THEN conjunct2, THEN mp, OF l, THEN conjunct2, THEN mp, OF ll, THEN conjunct1]
  have m: "(''return_policy'', [''/pages/returns'', ''/pages/return-policy'', ''/returns''])
      \<in> set policy_urls"
    by (simp add: policy_urls_def)
  note c = policy_needs_more_than_100_characters
      [where w = long_world and base_url = "''https://shop.example''" and lg = "[]",
       THEN conjunct1, rule_format, OF m]
  from a b c show ?thesis
    by (simp add: return_policy_title)
qed

section \<open>Social links\<close>

lemma social_links_of_append:
  "social_links_of w base_url (hs1 @ hs2) =
     (case social_links_of w base_url hs1 of
        Inl e \<Rightarrow> Inl e
      | Inr r1 \<Rightarrow>
          (case social_links_of w base_url hs2 of
             Inl e \<Rightarrow> Inl e
           | Inr r2 \<Rightarrow> Inr (r1 @ r2)))"
  by (induction hs1) (auto simp: Let_def split: sum.splits)

lemma brandx_lower:
  "lower ''https://instagram.com/brandx'' = ''https://instagram.com/brandx''"
  by code_simp

lemma brandx_matches:
  "social_matches ''https://instagram.com/brandx''
     = [\<lparr> platform = ''instagram'', social_url = ''https://instagram.com/brandx'',
          social_name = Some ''brandx'' \<rparr>]"
  by code_simp

lemma social_matches_entries:
  "social_matches t =
     [\<lparr> platform = name, social_url = t, social_name = Some g \<rparr>.
        (name, lit, alts) \<leftarrow> social_patterns,
        g \<leftarrow> (case re_search lit alts handle_char t of None \<Rightarrow> [] | Some x \<Rightarrow> [x])]"
proof -
  have "\<And>ps :: (string \<times> string \<times> string list) list.
      concat (map (\<lambda>(name, lit, alts).
                    case re_search lit alts handle_char t of
                      Some g \<Rightarrow> [\<lparr> platform = name, social_url = t, social_name = Some g \<rparr>]
                    | None \<Rightarrow> []) ps)
      = [\<lparr> platform = name, social_url = t, social_name = Some g \<rparr>.
           (name, lit, alts) \<leftarrow> ps,
           g \<leftarrow> (case re_search lit alts handle_char t of None \<Rightarrow> [] | Some x \<Rightarrow> [x])]"
  proof -
    fix ps :: "(string \<times> string \<times> string list) list"
    show "concat (map (\<lambda>(name, lit, alts).
                    case re_search lit alts handle_char t of
                      Some g \<Rightarrow> [\<lparr> platform = name, social_url = t, social_name = Some g \<rparr>]
                    | None \<Rightarrow> []) ps)
      = [\<lparr> platform = name, social_url = t, social_name = Some g \<rparr>.
           (name, lit, alts) \<leftarrow> ps,
           g \<leftarrow> (case re_search lit alts handle_char t of None \<Rightarrow> [] | Some x \<Rightarrow> [x])]"
      by (induction ps) (auto split: option.splits)
  qed
  then show ?thesis
    by (simp only: social_matches_def)
qed

lemma social_links_of_resolved:
  assumes "\<forall>h \<in> set hs. starts_with (lower h) ''/'' \<longrightarrow> \<not> isl (urljoin w base_url (lower h))"
  shows "social_links_of w base_url hs =
     Inr (concat (map (\<lambda>h. if lower h = [] then []
                            else social_matches
                                   (if starts_with (lower h) ''/''
                                    then projr (urljoin w base_url (lower h)) else lower h))
                      hs))"
  using assms
proof (induction hs)
  case Nil
  show ?case by simp
next
  case (Cons h hs)
  then have ih: "social_links_of w base_url hs =
     Inr (concat (map (\<lambda>h. if lower h = [] then []
                            else social_matches
                                   (if starts_with (lower h) ''/''
                                    then projr (urljoin w base_url (lower h)) else lower h))
                      hs))"
    by simp
  from Cons.prems have "starts_with (lower h) ''/'' \<longrightarrow> \<not> isl (urljoin w base_url (lower h))"
    by simp
  then show ?case
    by (cases "urljoin w base_url (lower h)") (simp_all add: ih Let_def del: lower_def)
qed

lemma social_links_of_raises:
  assumes "\<exists>h \<in> set hs. starts_with (lower h) ''/'' \<and> isl (urljoin w base_url (lower h))"
  shows "isl (social_links_of w base_url hs)"
  using assms
proof (induction hs)
  case Nil
  then show ?case by simp
next
  case (Cons h hs)
  show ?case
  proof (cases "starts_with (lower h) ''/'' \<and> isl (urljoin w base_url (lower h))")
    case True
    then have "lower h \<noteq> []"
      by auto
    with True show ?thesis
      by (cases "urljoin w base_url (lower h)") (simp_all add: Let_def del: lower_def)
  next
    case False
    with Cons.prems have "\<exists>h \<in> set hs. starts_with (lower h) ''/'' \<and> isl (urljoin w base_url (lower h))"
      by auto
    from Cons.IH [OF this] show ?thesis
      by (auto simp add: Let_def split: sum.splits simp del: lower_def)
  qed
qed

text \<open>
  C5, as the code has it. \<^verbatim>\<open>extract_social_links\<close> does not deduplicate. When every
  relative target resolves, its output is, in document order, one entry for every anchor
  with a non-empty target and every platform pattern, in the order of the patterns, that
  matches the anchor's lower-cased target (joined to the base URL when it starts with a
  slash): the entry holds the platform, that target and the captured handle. When the
  resolution of a relative target raises, so does the extraction. So what two runs of
  anchors give together is what the first gives followed by what the second gives, and two
  anchors that both point to \<^verbatim>\<open>https://instagram.com/brandx\<close> yield two equal entries for
  that platform and URL.
\<close>

theorem social_links_keep_duplicates:
  "((\<forall>h \<in> set (doc_anchors sp).
        starts_with (lower h) ''/'' \<longrightarrow> \<not> isl (urljoin w base_url (lower h))) \<longrightarrow>
      extract_social_links w sp base_url =
        Inr (concat (map (\<lambda>h. let t = (if starts_with (lower h) ''/''
                                         then projr (urljoin w base_url (lower h)) else lower h)
                                in if lower h = [] then []
                                   else [\<lparr> platform = name, social_url = t, social_name = Some g \<rparr>.
                                           (name, lit, alts) \<leftarrow> social_patterns,
                                           g \<leftarrow> (case re_search lit alts handle_char t of
                                                  None \<Rightarrow> [] | Some x \<Rightarrow> [x])])
                          (doc_anchors sp))))
   \<and> ((\<exists>h \<in> set (doc_anchors sp).
         starts_with (lower h) ''/'' \<and> isl (urljoin w base_url (lower h))) \<longrightarrow>
      isl (extract_social_links w sp base_url))
   \<and> social_links_of w base_url (hs1 @ hs2) =
     (case social_links_of w base_url hs1 of
        Inl e \<Rightarrow> Inl e
      | Inr r1 \<Rightarrow>
          (case social_links_of w base_url hs2 of
             Inl e \<Rightarrow> Inl e
           | Inr r2 \<Rightarrow> Inr (r1 @ r2)))
   \<and> (doc_anchors sp = [''https://instagram.com/brandx'', ''https://instagram.com/brandx''] \<longrightarrow>
        extract_social_links w sp base_url
          = Inr [\<lparr> platform = ''instagram'', social_url = ''https://instagram.com/brandx'',
                    social_name = Some ''brandx'' \<rparr>,
                 \<lparr> platform = ''instagram'', social_url = ''https://instagram.com/brandx'',
                    social_name = Some ''brandx'' \<rparr>])"
proof (intro conjI impI)
  assume a: "\<forall>h \<in> set (doc_anchors sp).
        starts_with (lower h) ''/'' \<longrightarrow> \<not> isl (urljoin w base_url (lower h))"
  show "extract_social_links w sp base_url =
        Inr (concat (map (\<lambda>h. let t = (if starts_with (lower h) ''/''
                                         then projr (urljoin w base_url (lower h)) else lower h)
                                in if lower h = [] then []
                                   else [\<lparr> platform = name, social_url = t, social_name = Some g \<rparr>.
                                           (name, lit, alts) \<leftarrow> social_patterns,
                                           g \<leftarrow> (case re_search lit alts handle_char t of
                                                  None \<Rightarrow> [] | Some x \<Rightarrow> [x])])
                          (doc_anchors sp)))"
    unfolding extract_social_links_def social_links_of_resolved [OF a] Let_def
      social_matches_entries
    by (rule refl)
next
  assume "\<exists>h \<in> set (doc_anchors sp).
         starts_with (lower h) ''/'' \<and> isl (urljoin w base_url (lower h))"
  then show "isl (extract_social_links w sp base_url)"
    unfolding extract_social_links_def by (rule social_links_of_raises)
next
  show "social_links_of w base_url (hs1 @ hs2) =
     (case social_links_of w base_url hs1 of
        Inl e \<Rightarrow> Inl e
      | Inr r1 \<Rightarrow>
          (case social_links_of w base_url hs2 of
             Inl e \<Rightarrow> Inl e
           | Inr r2 \<Rightarrow> Inr (r1 @ r2)))"
    by (rule social_links_of_append)
next
  assume "doc_anchors sp = [''https://instagram.com/brandx'', ''https://instagram.com/brandx'']"
  then show "extract_social_links w sp base_url
          = Inr [\<lparr> platform = ''instagram'', social_url = ''https://instagram.com/brandx'',
                    social_name = Some ''brandx'' \<rparr>,
                 \<lparr> platform = ''instagram'', social_url = ''https://instagram.com/brandx'',
                    social_name = Some ''brandx'' \<rparr>]"
    by (simp add: extract_social_links_def brandx_lower brandx_matches Let_def
        del: lower_def)
qed

theorem duplicate_anchors_counterexample:
  "doc_anchors twin_soup = [''https://instagram.com/brandx'', ''https://instagram.com/brandx'']
   \<and> extract_social_links demo_world twin_soup ''https://shop.example''
     = Inr [\<lparr> platform = ''instagram'', social_url = ''https://instagram.com/brandx'',
               social_name = Some ''brandx'' \<rparr>,
            \<lparr> platform = ''instagram'', social_url = ''https://instagram.com/brandx'',
               social_name = Some ''brandx'' \<rparr>]"
  by code_simp

lemma social_soup_resolves:
  "\<forall>h \<in> set (doc_anchors social_soup).
     starts_with (lower h) ''/'' \<longrightarrow> \<not> isl (urljoin demo_world ''https://shop.example'' (lower h))"
  by code_simp

lemma social_soup_entries:
  "(Inr (concat (map (\<lambda>h. let t = (if starts_with (lower h) ''/''
                                         then projr (urljoin demo_world ''https://shop.example'' (lower h)) else lower h)
                                in if lower h = [] then []
                                   else [\<lparr> platform = name, social_url = t, social_name = Some g \<rparr>.
                                           (name, lit, alts) \<leftarrow> social_patterns,
                                           g \<leftarrow> (case re_search lit alts handle_char t of
                                                  None \<Rightarrow> [] | Some x \<Rightarrow> [x])])
                          (doc_anchors social_soup))) :: exn + social_handle list)
   = Inr [\<lparr> platform = ''instagram'', social_url = ''https://instagram.com/brandx/'', social_name = Some ''brandx'' \<rparr>,
            \<lparr> platform = ''twitter'', social_url = ''https://shop.example/out?to=twitter.com/brandx'', social_name = Some ''brandx'' \<rparr>,
            \<lparr> platform = ''tiktok'', social_url = ''https://www.tiktok.com/@brandx?lang=en'', social_name = Some ''brandx'' \<rparr>,
            \<lparr> platform = ''youtube'', social_url = ''https://youtube.com/channel/uc123'', social_name = Some ''uc123'' \<rparr>,
            \<lparr> platform = ''youtube'', social_url = ''https://youtube.com/c/'', social_name = Some ''c'' \<rparr>,
            \<lparr> platform = ''linkedin'', social_url = ''https://linkedin.com/in/'', social_name = Some ''in'' \<rparr>,
            \<lparr> platform = ''instagram'', social_url = ''https://facebook.com/sharer?u=https://instagram.com/brandx'', social_name = Some ''brandx'' \<rparr>,
            \<lparr> platform = ''facebook'', social_url = ''https://facebook.com/sharer?u=https://instagram.com/brandx'', social_name = Some ''sharer'' \<rparr>,
            \<lparr> platform = ''instagram'', social_url = ''https://instagram.com/brandx'', social_name = Some ''brandx'' \<rparr>,
            \<lparr> platform = ''instagram'', social_url = ''https://instagram.com/brandx'', social_name = Some ''brandx'' \<rparr>,
            \<lparr> platform = ''tiktok'', social_url = ''https://tiktok.com/@/x'', social_name = Some ''@'' \<rparr>,
            \<lparr> platform = ''pinterest'', social_url = ''https://pinterest.com/?q=1 pinterest.com/late'', social_name = Some ''late'' \<rparr>]"
  by code_simp

theorem social_links_keep_duplicates_witness:
  "extract_social_links demo_world social_soup ''https://shop.example''
     = Inr [\<lparr> platform = ''instagram'', social_url = ''https://instagram.com/brandx/'', social_name = Some ''brandx'' \<rparr>,
            \<lparr> platform = ''twitter'', social_url = ''https://shop.example/out?to=twitter.com/brandx'', social_name = Some ''brandx'' \<rparr>,
            \<lparr> platform = ''tiktok'', social_url = ''https://www.tiktok.com/@brandx?lang=en'', social_name = Some ''brandx'' \<rparr>,
            \<lparr> platform = ''youtube'', social_url = ''https://youtube.com/channel/uc123'', social_name = Some ''uc123'' \<rparr>,
            \<lparr> platform = ''youtube'', social_url = ''https://youtube.com/c/'', social_name = Some ''c'' \<rparr>,
            \<lparr> platform = ''linkedin'', social_url = ''https://linkedin.com/in/'', social_name = Some ''in'' \<rparr>,
            \<lparr> platform = ''instagram'', social_url = ''https://facebook.com/sharer?u=https://instagram.com/brandx'', social_name = Some ''brandx'' \<rparr>,
            \<lparr> platform = ''facebook'', social_url = ''https://facebook.com/sharer?u=https://instagram.com/brandx'', social_name = Some ''sharer'' \<rparr>,
            \<lparr> platform = ''instagram'', social_url = ''https://instagram.com/brandx'', social_name = Some ''brandx'' \<rparr>,
            \<lparr> platform = ''instagram'', social_url = ''https://instagram.com/brandx'', social_name = Some ''brandx'' \<rparr>,
            \<lparr> platform = ''tiktok'', social_url = ''https://tiktok.com/@/x'', social_name = Some ''@'' \<rparr>,
            \<lparr> platform = ''pinterest'', social_url = ''https://pinterest.com/?q=1 pinterest.com/late'', social_name = Some ''late'' \<rparr>]
   \<and> length (projr (extract_social_links failing_world twin_soup ''https://other.example'')) = 2
   \<and> map social_url (projr (extract_social_links failing_world twin_soup ''https://other.example''))
       = [''https://instagram.com/brandx'', ''https://instagram.com/brandx'']"
proof -
  note r = social_links_keep_duplicates
      [where w = demo_world and sp = social_soup and base_url = "''https://shop.example''",
       THEN conjunct1, THEN mp, OF social_soup_resolves]
  have a: "doc_anchors twin_soup
      = [''https://instagram.com/brandx'', ''https://instagram.com/brandx'']"
    by (simp add: twin_soup_def)
  note b = social_links_keep_duplicates
      [where w = failing_world and sp = twin_soup and base_url = "''https://other.example''",
       THEN conjunct2, THEN conjunct2, THEN conjunct2, THEN mp, OF a]
  have "length (projr (extract_social_links failing_world twin_soup ''https://other.example'')) = 2
   \<and> map social_url (projr (extract_social_links failing_world twin_soup ''https://other.example''))
       = [''https://instagram.com/brandx'', ''https://instagram.com/brandx'']"
    unfolding b by simp
  with r [unfolded social_soup_entries] show ?thesis
    by (rule conjI)
qed

section \<open>Similarity\<close>

lemma zero_in_unit_interval: "in_unit_interval lit_0_0"
  by (simp add: in_unit_interval_def lit_0_0_def pow2_def)

text \<open>
  C7, as the code has it. With the service enabled, \<^verbatim>\<open>analyze_competitor_similarity\<close>
  returns 0.0 when a brand has no description, when the request raises and when the reply
  does not parse as a float; otherwise it returns the parsed reply as it is. So the result
  lies between 0.0 and 1.0 exactly when it is such a fallback or the parsed reply lies there:
  a reply out of range is returned, not replaced by 0.0.
\<close>

theorem similarity_is_parsed_reply_or_zero:
  "enabled llm \<longrightarrow>
     (\<forall>s1 s2 reply x.
         summarize 10 b1 = Inr s1 \<and> summarize 10 b2 = Inr s2
         \<and> chat_similarity llm lg s1 s2 = Inr reply \<and> py_float (strip reply) = Some x \<longrightarrow>
         fst (analyze_competitor_similarity llm b1 b2 lg) = x)
   \<and> ((\<exists>e. summarize 10 b1 = Inl e) \<or> (\<exists>e. summarize 10 b2 = Inl e)
        \<or> (\<exists>s1 s2. summarize 10 b1 = Inr s1 \<and> summarize 10 b2 = Inr s2
              \<and> ((\<exists>e. chat_similarity llm lg s1 s2 = Inl e)
                 \<or> (\<exists>reply. chat_similarity llm lg s1 s2 = Inr reply
                       \<and> py_float (strip reply) = None))) \<longrightarrow>
         fst (analyze_competitor_similarity llm b1 b2 lg) = lit_0_0)
   \<and> (in_unit_interval (fst (analyze_competitor_similarity llm b1 b2 lg)) \<longleftrightarrow>
        (\<forall>s1 s2 reply x.
           summarize 10 b1 = Inr s1 \<and> summarize 10 b2 = Inr s2
           \<and> chat_similarity llm lg s1 s2 = Inr reply \<and> py_float (strip reply) = Some x \<longrightarrow>
           in_unit_interval x))"
proof
  assume en: "enabled llm"
  show "(\<forall>s1 s2 reply x.
         summarize 10 b1 = Inr s1 \<and> summarize 10 b2 = Inr s2
         \<and> chat_similarity llm lg s1 s2 = Inr reply \<and> py_float (strip reply) = Some x \<longrightarrow>
         fst (analyze_competitor_similarity llm b1 b2 lg) = x)
   \<and> ((\<exists>e. summarize 10 b1 = Inl e) \<or> (\<exists>e. summarize 10 b2 = Inl e)
        \<or> (\<exists>s1 s2. summarize 10 b1 = Inr s1 \<and> summarize 10 b2 = Inr s2
              \<and> ((\<exists>e. chat_similarity llm lg s1 s2 = Inl e)
                 \<or> (\<exists>reply. chat_similarity llm lg s1 s2 = Inr reply
                       \<and> py_float (strip reply) = None))) \<longrightarrow>
         fst (analyze_competitor_similarity llm b1 b2 lg) = lit_0_0)
   \<and> (in_unit_interval (fst (analyze_competitor_similarity llm b1 b2 lg)) \<longleftrightarrow>
        (\<forall>s1 s2 reply x.
           summarize 10 b1 = Inr s1 \<and> summarize 10 b2 = Inr s2
           \<and> chat_similarity llm lg s1 s2 = Inr reply \<and> py_float (strip reply) = Some x \<longrightarrow>
           in_unit_interval x))"
  proof (cases "summarize 10 b1")
    case (Inl e)
    with en show ?thesis
      by (simp add: analyze_competitor_similarity_def zero_in_unit_interval)
  next
    case s1: (Inr s1)
    show ?thesis
    proof (cases "summarize 10 b2")
      case (Inl e)
      with en s1 show ?thesis
        by (simp add: analyze_competitor_similarity_def zero_in_unit_interval)
    next
      case s2: (Inr s2)
      show ?thesis
      proof (cases "chat_similarity llm lg s1 s2")
        case (Inl e)
        with en s1 s2 show ?thesis
          by (simp add: analyze_competitor_similarity_def zero_in_unit_interval)
      next
        case (Inr reply)
        with en s1 s2 show ?thesis
          by (cases "py_float (strip reply)")
            (simp_all add: analyze_competitor_similarity_def zero_in_unit_interval)
      qed
    qed
  qed
qed

lemma reply_one_and_a_half:
  "py_float (strip '' 1.5 '') = Some (Fin 3 (- 1))"
  by code_simp

lemma one_and_a_half_out_of_range:
  "\<not> in_unit_interval (Fin 3 (- 1))"
  by code_simp

theorem out_of_range_reply_counterexample:
  "enabled eager_llm
   \<and> fst (analyze_competitor_similarity eager_llm described_brand described_brand [])
       = Fin 3 (- 1)
   \<and> Fin 3 (- 1) = fl_mul (Fin 3 0) (Fin 1 (- 1))
   \<and> \<not> in_unit_interval (Fin 3 (- 1))"
  by code_simp

lemma described_brand_summary:
  "summarize 10 described_brand
     = Inr \<lparr> summary_name = None, summary_products = [],
             summary_description = ''Colour cosmetics'' \<rparr>"
  by (simp add: summarize_def described_brand_def new_brand_context_def)

lemma reply_in_words:
  "py_float (strip ''very similar'') = None"
  by code_simp

theorem similarity_is_parsed_reply_or_zero_witness:
  "fst (analyze_competitor_similarity eager_llm described_brand described_brand [])
     = Fin 3 (- 1)
   \<and> fst (analyze_competitor_similarity vague_llm described_brand described_brand []) = lit_0_0"
proof -
  let ?s = "\<lparr> summary_name = None, summary_products = [],
             summary_description = ''Colour cosmetics'' \<rparr>"
  have e: "enabled eager_llm" and v: "enabled vague_llm"
    by (simp_all add: eager_llm_def vague_llm_def)
  have p1: "summarize 10 described_brand = Inr ?s \<and> summarize 10 described_brand = Inr ?s
      \<and> chat_similarity eager_llm [] ?s ?s = Inr '' 1.5 ''
      \<and> py_float (strip '' 1.5 '') = Some (Fin 3 (- 1))"
    by (simp add: described_brand_summary reply_one_and_a_half eager_llm_def)
  note a = similarity_is_parsed_reply_or_zero
      [where lg = "[]", THEN mp, OF e, THEN conjunct1, rule_format, OF p1]
  have p2: "(\<exists>e. summarize 10 described_brand = Inl e)
      \<or> (\<exists>e. summarize 10 described_brand = Inl e)
      \<or> (\<exists>s1 s2. summarize 10 described_brand = Inr s1 \<and> summarize 10 described_brand = Inr s2
            \<and> ((\<exists>e. chat_similarity vague_llm [] s1 s2 = Inl e)
               \<or> (\<exists>reply. chat_similarity vague_llm [] s1 s2 = Inr reply
                     \<and> py_float (strip reply) = None)))"
    by (simp add: described_brand_summary reply_in_words vague_llm_def)
  note b = similarity_is_parsed_reply_or_zero
      [where lg = "[]", THEN mp, OF v, THEN conjunct2, THEN conjunct1, THEN mp, OF p2]
  from a b show ?thesis
    by (rule conjI)
qed

section \<open>Search terms\<close>

lemma lowered_types_by_type:
  "lowered_types ps =
     concat (map (\<lambda>t. case t of None \<Rightarrow> [] | Some x \<Rightarrow> if x = [] then [] else [lower x])
                 (map product_type ps))"
  by (simp add: lowered_types_def comp_def)

lemma lower_lipstick: "lower ''lipstick'' = ''lipstick''"
  by code_simp

lemma lower_eyeshadow: "lower ''eyeshadow'' = ''eyeshadow''"
  by code_simp

lemma colourpop_words:
  "findall_words (lower ''ColourPop Cosmetics'') = [''colourpop'', ''cosmetics'']"
  by code_simp

text \<open>
  C8. For a brand whose catalog has the product types lipstick, lipstick, eyeshadow and
  whose name is \<^verbatim>\<open>ColourPop Cosmetics\<close>, whatever the order in which Python iterates the
  set of types, the fallback returns at most 8 terms, all of them product types of the
  brand, words of its lower-cased name or generic terms (exactly the six terms listed),
  and no term twice.
\<close>

theorem fallback_terms_of_colourpop:
  "set_order_ok (set_order w)
   \<and> map product_type (product_catalog pb) = [Some ''lipstick'', Some ''lipstick'', Some ''eyeshadow'']
   \<and> brand_name pb = Some ''ColourPop Cosmetics'' \<longrightarrow>
     length (generate_fallback_search_terms w pb) \<le> 8
   \<and> distinct (generate_fallback_search_terms w pb)
   \<and> set (generate_fallback_search_terms w pb)
       \<subseteq> {''lipstick'', ''eyeshadow''} \<union> set (findall_words (lower ''ColourPop Cosmetics''))
          \<union> set generic_terms
   \<and> set (generate_fallback_search_terms w pb)
       = {''lipstick'', ''eyeshadow'', ''colourpop'', ''cosmetics'', ''fashion'', ''beauty''}"
proof
  assume a: "set_order_ok (set_order w)
   \<and> map product_type (product_catalog pb) = [Some ''lipstick'', Some ''lipstick'', Some ''eyeshadow'']
   \<and> brand_name pb = Some ''ColourPop Cosmetics''"
  let ?T = "set_order w [''lipstick'', ''lipstick'', ''eyeshadow'']"
  from a have len: "length (product_catalog pb) = 3"
    by (metis length_map length_Cons list.size(3) numeral_3_eq_3)
  then have ne: "product_catalog pb \<noteq> []" and tk: "take 10 (product_catalog pb) = product_catalog pb"
    by auto
  from a have lt: "lowered_types (product_catalog pb) = [''lipstick'', ''lipstick'', ''eyeshadow'']"
    by (simp add: lowered_types_by_type lower_lipstick lower_eyeshadow del: lower_def)
  from a have dT: "distinct ?T" and sT: "set ?T = {''lipstick'', ''eyeshadow''}"
    by (auto simp: set_order_ok_def)
  have "card (set ?T) = 2"
    unfolding sT by simp
  with dT have lT: "length ?T = 2"
    by (simp add: distinct_card)
  from a ne tk lt lT have r': "generate_fallback_search_terms w pb
      = ?T @ [''colourpop'', ''cosmetics'', ''fashion'', ''beauty'']"
    by (simp add: generate_fallback_search_terms_def colourpop_words generic_terms_def Let_def
        del: lower_def)
  show "length (generate_fallback_search_terms w pb) \<le> 8
   \<and> distinct (generate_fallback_search_terms w pb)
   \<and> set (generate_fallback_search_terms w pb)
       \<subseteq> {''lipstick'', ''eyeshadow''} \<union> set (findall_words (lower ''ColourPop Cosmetics''))
          \<union> set generic_terms
   \<and> set (generate_fallback_search_terms w pb)
       = {''lipstick'', ''eyeshadow'', ''colourpop'', ''cosmetics'', ''fashion'', ''beauty''}"
    unfolding r' colourpop_words generic_terms_def
    using dT sT lT by auto
qed

lemma demo_extraction_types:
  "map product_type (product_catalog (projr (fst (extract_all_insights demo_world ''shop.example'' []))))
     = [Some ''lipstick'', Some ''lipstick'', Some ''eyeshadow'']"
  by code_simp

lemma demo_extraction_name:
  "brand_name (projr (fst (extract_all_insights demo_world ''shop.example'' [])))
     = Some ''ColourPop Cosmetics''"
  by code_simp

theorem fallback_terms_of_colourpop_witness:
  "length (generate_fallback_search_terms demo_world
             (projr (fst (extract_all_insights demo_world ''shop.example'' [])))) \<le> 8
   \<and> distinct (generate_fallback_search_terms demo_world
             (projr (fst (extract_all_insights demo_world ''shop.example'' []))))
   \<and> set (generate_fallback_search_terms demo_world
             (projr (fst (extract_all_insights demo_world ''shop.example'' []))))
       = {''lipstick'', ''eyeshadow'', ''colourpop'', ''cosmetics'', ''fashion'', ''beauty''}"
proof -
  let ?pb = "projr (fst (extract_all_insights demo_world ''shop.example'' []))"
  have o: "set_order_ok (set_order demo_world)"
    by (simp add: set_order_ok_def demo_world_def)
  have pre: "set_order_ok (set_order demo_world)
      \<and> map product_type (product_catalog ?pb)
          = [Some ''lipstick'', Some ''lipstick'', Some ''eyeshadow'']
      \<and> brand_name ?pb = Some ''ColourPop Cosmetics''"
    by (intro conjI o demo_extraction_types demo_extraction_name)
  note a = fallback_terms_of_colourpop [THEN mp, OF pre]
  show ?thesis
    by (intro conjI a [THEN conjunct1] a [THEN conjunct2, THEN conjunct1]
        a [THEN conjunct2, THEN conjunct2, THEN conjunct2])
qed

section \<open>Market insights\<close>

lemma exponent_of_hundredfold:
  assumes "0 < n"
  shows "exponent_of (100 * n) n = 6"
proof -
  let ?k = "bitlen n"
  from bitlen_bounds [OF assms] have lo: "2 ^ nat (?k - 1) \<le> n" and hi: "n < 2 ^ nat ?k"
    by simp_all
  from assms have k1: "1 \<le> ?k"
    by (simp add: bitlen_alt_def)
  have p7: "(2::int) ^ nat (?k + 7) = 128 * 2 ^ nat ?k"
    using k1 by (simp add: nat_add_distrib power_add)
  have p5: "(2::int) ^ (nat (?k + 6) - 1) = 64 * 2 ^ nat (?k - 1)"
  proof -
    from k1 have "nat (?k + 6) - 1 = nat (?k - 1) + 6"
      by simp
    then show ?thesis
      by (simp add: power_add)
  qed
  have up: "bitlen (100 * n) \<le> ?k + 7"
    unfolding bitlen_le_iff_power p7
  proof (intro conjI)
    show "0 \<le> ?k + 7"
      using k1 by linarith
    show "100 * n < 128 * 2 ^ nat ?k"
      using hi assms by linarith
  qed
  have dn: "?k + 6 \<le> bitlen (100 * n)"
    unfolding bitlen_ge_iff_power p5
  proof (rule disjI2)
    show "64 * 2 ^ nat (?k - 1) \<le> 100 * n"
      using lo assms by linarith
  qed
  from up dn have "bitlen (100 * n) - ?k = 6 \<or> bitlen (100 * n) - ?k = 7"
    by arith
  then show ?thesis
    using assms by (auto simp: exponent_of_def pow2_def Let_def)
qed

lemma round_half_even_multiple:
  assumes "0 < d"
  shows "round_half_even (c * d) d = c"
  using assms by (simp add: round_half_even_def)

lemma pack_hundred: "pack False 7036874417766400 (- 46) = Fin 25 2"
  by code_simp

lemma not_too_large_hundred: "\<not> too_large 7036874417766400 (- 46)"
  by code_simp

lemma average_exactly_one_hundred:
  assumes "0 < n"
  shows "int_truediv (100 * n) n = Inr (Fin 25 2)"
proof -
  have m: "100 * n * pow2 46 = 7036874417766400 * n"
    by (simp add: pow2_def)
  have "round_pos (100 * n) n = (7036874417766400, - 46)"
    using assms
    by (simp add: round_pos_def exponent_of_hundredfold Let_def m round_half_even_multiple)
  with assms show ?thesis
    by (simp add: int_truediv_def round_frac_def not_too_large_hundred pack_hundred)
qed

lemma one_hundred_times_1_2: "fl_mul (Fin 25 2) lit_1_2 = Fin 15 3"
  by code_simp

lemma one_hundred_times_0_8: "fl_mul (Fin 25 2) lit_0_8 = Fin 5 4"
  by code_simp

lemma market_position_classified:
  assumes "comps \<noteq> []"
    and "int_truediv (sum_list (map total_products comps)) (int (length comps)) = Inr avg"
  shows "market_position (get_market_insights pb comps) = classify_catalog (total_products pb) avg"
  using assms by (simp add: get_market_insights_def Let_def split: sum.splits)

lemma market_position_unknown:
  assumes "int_truediv (sum_list (map total_products comps)) (int (length comps)) = Inl e"
  shows "market_position (get_market_insights pb comps) = ''unknown''"
  using assms by (simp add: get_market_insights_def unknown_insights_def)

lemma classify_catalog_large:
  "classify_catalog n avg = ''large_catalog'' \<longleftrightarrow> float_lt_int (fl_mul avg lit_1_2) n"
  by (simp add: classify_catalog_def)

lemma float_lt_int_mono:
  assumes "float_lt_int x i" and "i \<le> j"
  shows "float_lt_int x j"
proof (cases x)
  case (Fin m e)
  have "i * pow2 (- e) \<le> j * pow2 (- e)"
    using assms(2) by (simp add: pow2_def mult_right_mono)
  with assms Fin show ?thesis
    by (auto split: if_splits)
qed (use assms in auto)

lemma classify_against_one_hundred:
  "classify_catalog n (Fin 25 2) =
     (if 120 < n then ''large_catalog'' else if n < 80 then ''focused_catalog''
      else ''average_catalog'')"
  by (simp add: classify_catalog_def one_hundred_times_1_2 one_hundred_times_0_8 pow2_def)

text \<open>
  C9, as the code has it. With at least one competitor, \<^verbatim>\<open>market_position\<close> is
  \<^verbatim>\<open>large_catalog\<close> exactly when the primary's product count is strictly greater than the
  double-precision product of the competitors' double-precision average and the double
  nearest to 1.2 (when the average does not fit a float the division raises and the position
  stays \<^verbatim>\<open>unknown\<close>). That product can lie below the exact one. When the competitors'
  average is exactly 100, however many they are, it is exactly 120: the position is
  \<^verbatim>\<open>large_catalog\<close> exactly for more than 120 products, so 120 gives \<^verbatim>\<open>average_catalog\<close>
  and 121 gives \<^verbatim>\<open>large_catalog\<close>. Against the same competitors, a primary with at least as
  many products as one that is \<^verbatim>\<open>large_catalog\<close> is \<^verbatim>\<open>large_catalog\<close> too.
\<close>

theorem large_catalog_is_strictly_above_1_2_average:
  "comps \<noteq> [] \<longrightarrow>
     (market_position (get_market_insights pb comps) = ''large_catalog'' \<longleftrightarrow>
        (\<exists>avg. int_truediv (sum_list (map total_products comps)) (int (length comps)) = Inr avg
              \<and> float_lt_int (fl_mul avg lit_1_2) (total_products pb)))
   \<and> (sum_list (map total_products comps) = 100 * int (length comps) \<longrightarrow>
        (market_position (get_market_insights pb comps) = ''large_catalog''
           \<longleftrightarrow> 120 < total_products pb)
      \<and> (total_products pb = 120 \<longrightarrow>
            market_position (get_market_insights pb comps) = ''average_catalog'')
      \<and> (total_products pb = 121 \<longrightarrow>
            market_position (get_market_insights pb comps) = ''large_catalog''))
   \<and> (total_products pb \<le> total_products pb'
        \<and> market_position (get_market_insights pb comps) = ''large_catalog'' \<longrightarrow>
        market_position (get_market_insights pb' comps) = ''large_catalog'')"
proof (intro impI conjI)
  assume ne: "comps \<noteq> []"
  show "market_position (get_market_insights pb comps) = ''large_catalog'' \<longleftrightarrow>
        (\<exists>avg. int_truediv (sum_list (map total_products comps)) (int (length comps)) = Inr avg
              \<and> float_lt_int (fl_mul avg lit_1_2) (total_products pb))"
  proof (cases "int_truediv (sum_list (map total_products comps)) (int (length comps))")
    case (Inl e)
    then show ?thesis
      by (simp add: market_position_unknown)
  next
    case (Inr avg)
    then show ?thesis
      by (simp add: market_position_classified [OF ne] classify_catalog_large)
  qed
next
  assume ne: "comps \<noteq> []"
    and hundred: "sum_list (map total_products comps) = 100 * int (length comps)"
  from ne have "0 < int (length comps)"
    by simp
  from average_exactly_one_hundred [OF this] hundred
  have "int_truediv (sum_list (map total_products comps)) (int (length comps)) = Inr (Fin 25 2)"
    by simp
  from market_position_classified [OF ne this]
  have m: "market_position (get_market_insights pb comps)
      = (if 120 < total_products pb then ''large_catalog''
         else if total_products pb < 80 then ''focused_catalog'' else ''average_catalog'')"
    by (simp only: classify_against_one_hundred)
  show "market_position (get_market_insights pb comps) = ''large_catalog''
           \<longleftrightarrow> 120 < total_products pb"
    unfolding m by simp
  show "market_position (get_market_insights pb comps) = ''average_catalog''"
    if "total_products pb = 120"
    unfolding m using that by simp
  show "market_position (get_market_insights pb comps) = ''large_catalog''"
    if "total_products pb = 121"
    unfolding m using that by simp
next
  assume ne: "comps \<noteq> []"
    and le: "total_products pb \<le> total_products pb'
        \<and> market_position (get_market_insights pb comps) = ''large_catalog''"
  show "market_position (get_market_insights pb' comps) = ''large_catalog''"
  proof (cases "int_truediv (sum_list (map total_products comps)) (int (length comps))")
    case (Inl e)
    with le show ?thesis
      by (simp add: market_position_unknown)
  next
    case (Inr avg)
    with le have "float_lt_int (fl_mul avg lit_1_2) (total_products pb)"
      by (simp add: market_position_classified [OF ne] classify_catalog_large)
    with le have "float_lt_int (fl_mul avg lit_1_2) (total_products pb')"
      using float_lt_int_mono by blast
    with Inr show ?thesis
      by (simp add: market_position_classified [OF ne] classify_catalog_large)
  qed
qed

theorem exact_boundary_counterexample:
  "12 * sum_list (map total_products [brand_with 10, brand_with 12, brand_with 13])
     = 10 * total_products (brand_with 14)
       * int (length [brand_with 10, brand_with 12, brand_with 13])
   \<and> market_position
        (get_market_insights (brand_with 14) [brand_with 10, brand_with 12, brand_with 13])
      = ''large_catalog''"
  by code_simp

theorem large_catalog_is_strictly_above_1_2_average_witness:
  "market_position
       (get_market_insights (brand_with 120) [brand_with 50, brand_with 100, brand_with 150])
     = ''average_catalog''
   \<and> market_position
       (get_market_insights (brand_with 121) [brand_with 50, brand_with 100, brand_with 150])
     = ''large_catalog''
   \<and> market_position (get_market_insights (brand_with 120) [brand_with 100]) = ''average_catalog''
   \<and> market_position (get_market_insights (brand_with 121) [brand_with 100]) = ''large_catalog''
   \<and> market_position (get_market_insights (brand_with 500) [brand_with 100]) = ''large_catalog''"
proof -
  have ne: "[brand_with 50, brand_with 100, brand_with 150] \<noteq> []"
    and ne1: "[brand_with 100] \<noteq> []"
    by simp_all
  have h: "sum_list (map total_products [brand_with 50, brand_with 100, brand_with 150])
      = 100 * int (length [brand_with 50, brand_with 100, brand_with 150])"
    and h1: "sum_list (map total_products [brand_with 100]) = 100 * int (length [brand_with 100])"
    by (simp_all add: brand_with_def)
  have a: "total_products (brand_with 120) = 120" and b: "total_products (brand_with 121) = 121"
    by (simp_all add: brand_with_def)
  note t = large_catalog_is_strictly_above_1_2_average
  note l = t [where pb = "brand_with 121" and comps = "[brand_with 100]",
       THEN mp, OF ne1, THEN conjunct2, THEN conjunct1, THEN mp, OF h1, THEN conjunct2, THEN conjunct2,
       THEN mp, OF b]
  have up: "total_products (brand_with 121) \<le> total_products (brand_with 500)
      \<and> market_position (get_market_insights (brand_with 121) [brand_with 100])
          = ''large_catalog''"
    using l by (simp add: brand_with_def)
  from t [where pb = "brand_with 120"
          and comps = "[brand_with 50, brand_with 100, brand_with 150]",
       THEN mp, OF ne, THEN conjunct2, THEN conjunct1, THEN mp, OF h, THEN conjunct2, THEN conjunct1,
       THEN mp, OF a]
    t [where pb = "brand_with 121"
          and comps = "[brand_with 50, brand_with 100, brand_with 150]",
       THEN mp, OF ne, THEN conjunct2, THEN conjunct1, THEN mp, OF h, THEN conjunct2, THEN conjunct2,
       THEN mp, OF b]
    t [where pb = "brand_with 120" and comps = "[brand_with 100]",
       THEN mp, OF ne1, THEN conjunct2, THEN conjunct1, THEN mp, OF h1, THEN conjunct2, THEN conjunct1,
       THEN mp, OF a]
    t [where pb = "brand_with 121" and comps = "[brand_with 100]",
       THEN mp, OF ne1, THEN conjunct2, THEN conjunct1, THEN mp, OF h1, THEN conjunct2, THEN conjunct2,
       THEN mp, OF b]
    t [where pb = "brand_with 121" and pb' = "brand_with 500" and comps = "[brand_with 100]",
       THEN mp, OF ne1, THEN conjunct2, THEN conjunct2, THEN mp, OF up]
  show ?thesis
    by (intro conjI)
qed

section \<open>Competitor analysis\<close>

lemma analyze_competitors_try_Inr:
  assumes "fst (analyze_competitors_try w llm pb m lg) = Inr r"
  shows "primary_brand r = pb"
    and "(\<exists>terms found lgs.
                       find_competitor_urls w terms (m * 2) = Inr found
                       \<and> competitors r
                           = fst (analyze_candidates w llm pb
                                    (slice_to m (filter (\<lambda>u. u \<noteq> website_url pb) found)) lgs))"
proof -
  obtain from_llm lg1 where g:
    "(if enabled llm then generate_competitor_search_terms w llm pb lg else ([], lg))
       = (from_llm, lg1)"
    by force
  define terms where
    "terms = (if from_llm = [] then map JStr (generate_fallback_search_terms w pb) else from_llm)"
  from assms g obtain found where f: "find_competitor_urls w terms (m * 2) = Inr found"
    by (cases "find_competitor_urls w terms (m * 2)")
      (auto simp: analyze_competitors_try_def Let_def terms_def split: prod.splits)
  let ?us = "slice_to m (filter (\<lambda>u. u \<noteq> website_url pb) found)"
  from assms g f have r: "primary_brand r = pb
      \<and> competitors r = fst (analyze_candidates w llm pb ?us lg1)"
    by (auto simp: analyze_competitors_try_def Let_def terms_def split: prod.splits sum.splits)
  then show "primary_brand r = pb"
    by simp
  from r f show "(\<exists>terms found lgs.
                       find_competitor_urls w terms (m * 2) = Inr found
                       \<and> competitors r
                           = fst (analyze_candidates w llm pb
                                    (slice_to m (filter (\<lambda>u. u \<noteq> website_url pb) found)) lgs))"
    by blast
qed

lemma analyze_candidates_append_pair:
  "analyze_candidates w llm pb (us1 @ us2) lg =
     (fst (analyze_candidates w llm pb us1 lg)
      @ fst (analyze_candidates w llm pb us2 (snd (analyze_candidates w llm pb us1 lg))),
      snd (analyze_candidates w llm pb us2 (snd (analyze_candidates w llm pb us1 lg))))"
  by (induction us1 arbitrary: lg) (simp_all add: case_prod_beta Let_def split: sum.splits)

text \<open>
  C10. \<^verbatim>\<open>analyze_competitors\<close> always returns an analysis, and the analysis carries the
  given primary brand. When the \<^verbatim>\<open>try\<close> block raises, the analysis has no competitor and
  its summary is the failure text with the exception's message; otherwise it is what the
  block assembled, whose competitors are what the loop collected from the selected URLs. In
  the loop over the candidates, a candidate whose extraction raises is skipped (the loop
  goes on with the others); a candidate whose extraction returns is kept at the front of
  what the others give, with the similarity note appended when the service is enabled; and
  what the loop collected from earlier candidates stays at the front of the result.
\<close>

theorem analyze_competitors_is_total:
  "(\<exists>ca. fst (analyze_competitors w llm pb m lg) = Inr ca \<and> primary_brand ca = pb
        \<and> (\<forall>e. fst (analyze_competitors_try w llm pb m lg) = Inl e \<longrightarrow>
              competitors ca = []
              \<and> analysis_summary ca = Some (''Competitor analysis failed: '' @ exn_msg e))
        \<and> (\<forall>r. fst (analyze_competitors_try w llm pb m lg) = Inr r \<longrightarrow>
              ca = r
              \<and> (\<exists>terms found lgs.
                     find_competitor_urls w terms (m * 2) = Inr found
                     \<and> competitors r
                         = fst (analyze_candidates w llm pb
                                  (slice_to m (filter (\<lambda>u. u \<noteq> website_url pb) found)) lgs))))
   \<and> (fst (extract_all_insights w u lga) = Inl ex \<longrightarrow>
        analyze_candidates w llm pb (u # us) lga
          = analyze_candidates w llm pb us (snd (extract_all_insights w u lga)))
   \<and> (fst (extract_all_insights w u lga) = Inr c \<longrightarrow>
        (\<not> enabled llm \<longrightarrow>
           fst (analyze_candidates w llm pb (u # us) lga)
             = c # fst (analyze_candidates w llm pb us (snd (extract_all_insights w u lga))))
      \<and> (enabled llm \<longrightarrow>
           fst (analyze_candidates w llm pb (u # us) lga)
             = c\<lparr> extraction_notes :=
                    extraction_notes c
                    @ [''Similarity score: ''
                       @ format_2f (fst (analyze_competitor_similarity llm pb c
                                           (snd (extract_all_insights w u lga))))] \<rparr>
               # fst (analyze_candidates w llm pb us
                        (snd (analyze_competitor_similarity llm pb c
                                (snd (extract_all_insights w u lga)))))))
   \<and> fst (analyze_candidates w llm pb (usa @ usb) lga)
       = fst (analyze_candidates w llm pb usa lga)
         @ fst (analyze_candidates w llm pb usb (snd (analyze_candidates w llm pb usa lga)))"
proof (intro conjI impI)
  obtain x lg' where t: "analyze_competitors_try w llm pb m lg = (x, lg')"
    by force
  show "\<exists>ca. fst (analyze_competitors w llm pb m lg) = Inr ca \<and> primary_brand ca = pb
        \<and> (\<forall>e. fst (analyze_competitors_try w llm pb m lg) = Inl e \<longrightarrow>
              competitors ca = []
              \<and> analysis_summary ca = Some (''Competitor analysis failed: '' @ exn_msg e))
        \<and> (\<forall>r. fst (analyze_competitors_try w llm pb m lg) = Inr r \<longrightarrow>
              ca = r
              \<and> (\<exists>terms found lgs.
                     find_competitor_urls w terms (m * 2) = Inr found
                     \<and> competitors r
                         = fst (analyze_candidates w llm pb
                                  (slice_to m (filter (\<lambda>u. u \<noteq> website_url pb) found)) lgs)))"
  proof (cases x)
    case (Inl e)
    with t show ?thesis
      by (simp add: analyze_competitors_def)
  next
    case (Inr r)
    with t have r: "fst (analyze_competitors_try w llm pb m lg) = Inr r"
      by simp
    note analyze_competitors_try_Inr [OF r]
    with t Inr show ?thesis
      by (simp add: analyze_competitors_def)
  qed
next
  assume "fst (extract_all_insights w u lga) = Inl ex"
  then show "analyze_candidates w llm pb (u # us) lga
          = analyze_candidates w llm pb us (snd (extract_all_insights w u lga))"
    by (simp add: case_prod_beta)
next
  assume "fst (extract_all_insights w u lga) = Inr c" and "\<not> enabled llm"
  then show "fst (analyze_candidates w llm pb (u # us) lga)
             = c # fst (analyze_candidates w llm pb us (snd (extract_all_insights w u lga)))"
    by (simp add: case_prod_beta)
next
  assume "fst (extract_all_insights w u lga) = Inr c" and "enabled llm"
  then show "fst (analyze_candidates w llm pb (u # us) lga)
             = c\<lparr> extraction_notes :=
                    extraction_notes c
                    @ [''Similarity score: ''
                       @ format_2f (fst (analyze_competitor_similarity llm pb c
                                           (snd (extract_all_insights w u lga))))] \<rparr>
               # fst (analyze_candidates w llm pb us
                        (snd (analyze_competitor_similarity llm pb c
                                (snd (extract_all_insights w u lga)))))"
    by (simp add: case_prod_beta Let_def)
next
  show "fst (analyze_candidates w llm pb (usa @ usb) lga)
       = fst (analyze_candidates w llm pb usa lga)
         @ fst (analyze_candidates w llm pb usb (snd (analyze_candidates w llm pb usa lga)))"
    by (simp add: analyze_candidates_append_pair)
qed

lemma numeric_terms_raise:
  "fst (analyze_competitors_try numeric_terms_world eager_llm described_brand 3 [])
     = Inl (Exn ''AttributeError''
              (quoted ''int'' @ '' object has no attribute '' @ quoted ''lower''))"
  by code_simp

lemma mixed_world_returns:
  "\<not> isl (fst (analyze_competitors_try mixed_world eager_llm described_brand 3 []))"
  by code_simp

lemma mixed_world_competitors:
  "map website_url (competitors (projr (fst (analyze_competitors_try mixed_world eager_llm described_brand 3 []))))
     = [''https://fashionnova.com'', ''https://colourpop.com'']"
  by code_simp

lemma mixed_world_notes:
  "map extraction_notes (competitors (projr (fst (analyze_competitors_try mixed_world eager_llm described_brand 3 []))))
     = [[''Successfully extracted data from https://fashionnova.com'', ''Similarity score: 0.00''],
        [''Successfully extracted data from https://colourpop.com'', ''Similarity score: 0.00'']]"
  by code_simp

lemma mixed_world_summary:
  "analysis_summary (projr (fst (analyze_competitors_try mixed_world eager_llm described_brand 3 [])))
     = Some ''Competitor Analysis for https://shop.example | Search terms used: fashion, beauty | Found 2 competitor(s) | Competitors analyzed: ColourPop Cosmetics, ColourPop Cosmetics | Product catalog size - Primary: 0, Competitors avg: 3''"
  by code_simp

lemma gymshark_is_fatal:
  "fst (extract_all_insights mixed_world ''https://gymshark.com''
          (snd (extract_all_insights mixed_world ''https://fashionnova.com'' [])))
     = Inl not_shopify_error"
  by code_simp

lemma fashionnova_returns:
  "\<not> isl (fst (extract_all_insights mixed_world ''https://fashionnova.com'' []))"
  by code_simp

theorem analyze_competitors_is_total_witness:
  "(\<exists>ca. fst (analyze_competitors numeric_terms_world eager_llm described_brand 3 []) = Inr ca
         \<and> primary_brand ca = described_brand \<and> competitors ca = []
         \<and> analysis_summary ca = Some (''Competitor analysis failed: '' @ quoted ''int'' @ '' object has no attribute '' @ quoted ''lower''))
   \<and> (\<exists>ca. fst (analyze_competitors mixed_world eager_llm described_brand 3 []) = Inr ca
         \<and> primary_brand ca = described_brand
         \<and> map website_url (competitors ca) = [''https://fashionnova.com'', ''https://colourpop.com'']
         \<and> map extraction_notes (competitors ca)
             = [[''Successfully extracted data from https://fashionnova.com'',
                 ''Similarity score: 0.00''],
                [''Successfully extracted data from https://colourpop.com'',
                 ''Similarity score: 0.00'']]
         \<and> analysis_summary ca = Some ''Competitor Analysis for https://shop.example | Search terms used: fashion, beauty | Found 2 competitor(s) | Competitors analyzed: ColourPop Cosmetics, ColourPop Cosmetics | Product catalog size - Primary: 0, Competitors avg: 3'')
   \<and> fst (analyze_candidates mixed_world quiet_llm described_brand
             [''https://fashionnova.com'', ''https://gymshark.com'', ''https://colourpop.com''] [])
      = projr (fst (extract_all_insights mixed_world ''https://fashionnova.com'' []))
        # fst (analyze_candidates mixed_world quiet_llm described_brand [''https://colourpop.com'']
                 (snd (extract_all_insights mixed_world ''https://gymshark.com''
                         (snd (extract_all_insights mixed_world ''https://fashionnova.com'' [])))))"
proof -
  note t = analyze_competitors_is_total
      [where w = numeric_terms_world and llm = eager_llm and pb = described_brand
         and m = 3 and lg = "[]", THEN conjunct1]
  from t obtain ca where ca:
    "fst (analyze_competitors numeric_terms_world eager_llm described_brand 3 []) = Inr ca
     \<and> primary_brand ca = described_brand
     \<and> (\<forall>e. fst (analyze_competitors_try numeric_terms_world eager_llm described_brand 3 [])
                 = Inl e \<longrightarrow>
              competitors ca = []
              \<and> analysis_summary ca = Some (''Competitor analysis failed: '' @ exn_msg e))
     \<and> (\<forall>r. fst (analyze_competitors_try numeric_terms_world eager_llm described_brand 3 [])
                 = Inr r \<longrightarrow>
              ca = r
              \<and> (\<exists>terms found lgs.
                     find_competitor_urls numeric_terms_world terms (3 * 2) = Inr found
                     \<and> competitors r
                         = fst (analyze_candidates numeric_terms_world eager_llm described_brand
                                  (slice_to 3 (filter (\<lambda>u. u \<noteq> website_url described_brand) found))
                                  lgs)))"
    by (rule exE)
  note f = ca [THEN conjunct2, THEN conjunct2, THEN conjunct1, rule_format, OF numeric_terms_raise]
  have fs: "analysis_summary ca = Some (''Competitor analysis failed: '' @ quoted ''int'' @ '' object has no attribute '' @ quoted ''lower'')"
    using f [THEN conjunct2] by (simp only: exn.sel)
  have a: "\<exists>ca. fst (analyze_competitors numeric_terms_world eager_llm described_brand 3 [])
         = Inr ca
         \<and> primary_brand ca = described_brand \<and> competitors ca = []
         \<and> analysis_summary ca = Some (''Competitor analysis failed: '' @ quoted ''int'' @ '' object has no attribute '' @ quoted ''lower'')"
    by (rule exI [of _ ca])
      (intro conjI ca [THEN conjunct1] ca [THEN conjunct2, THEN conjunct1] f [THEN conjunct1] fs)
  let ?r = "projr (fst (analyze_competitors_try mixed_world eager_llm described_brand 3 []))"
  have r: "fst (analyze_competitors_try mixed_world eager_llm described_brand 3 []) = Inr ?r"
    using mixed_world_returns by (rule sum.collapse(2) [symmetric])
  note s = analyze_competitors_is_total
      [where w = mixed_world and llm = eager_llm and pb = described_brand
         and m = 3 and lg = "[]", THEN conjunct1]
  from s obtain cb where cb:
    "fst (analyze_competitors mixed_world eager_llm described_brand 3 []) = Inr cb
     \<and> primary_brand cb = described_brand
     \<and> (\<forall>e. fst (analyze_competitors_try mixed_world eager_llm described_brand 3 []) = Inl e \<longrightarrow>
              competitors cb = []
              \<and> analysis_summary cb = Some (''Competitor analysis failed: '' @ exn_msg e))
     \<and> (\<forall>r. fst (analyze_competitors_try mixed_world eager_llm described_brand 3 []) = Inr r \<longrightarrow>
              cb = r
              \<and> (\<exists>terms found lgs.
                     find_competitor_urls mixed_world terms (3 * 2) = Inr found
                     \<and> competitors r
                         = fst (analyze_candidates mixed_world eager_llm described_brand
                                  (slice_to 3 (filter (\<lambda>u. u \<noteq> website_url described_brand) found))
                                  lgs)))"
    by (rule exE)
  note e = cb [THEN conjunct2, THEN conjunct2, THEN conjunct2, rule_format, OF r, THEN conjunct1]
  have b: "\<exists>ca. fst (analyze_competitors mixed_world eager_llm described_brand 3 []) = Inr ca
         \<and> primary_brand ca = described_brand
         \<and> map website_url (competitors ca) = [''https://fashionnova.com'', ''https://colourpop.com'']
         \<and> map extraction_notes (competitors ca)
             = [[''Successfully extracted data from https://fashionnova.com'',
                 ''Similarity score: 0.00''],
                [''Successfully extracted data from https://colourpop.com'',
                 ''Similarity score: 0.00'']]
         \<and> analysis_summary ca = Some ''Competitor Analysis for https://shop.example | Search terms used: fashion, beauty | Found 2 competitor(s) | Competitors analyzed: ColourPop Cosmetics, ColourPop Cosmetics | Product catalog size - Primary: 0, Competitors avg: 3''"
    by (rule exI [of _ cb])
      (intro conjI cb [THEN conjunct1] cb [THEN conjunct2, THEN conjunct1]
        mixed_world_competitors [folded e] mixed_world_notes [folded e]
        mixed_world_summary [folded e])
  let ?lg1 = "snd (extract_all_insights mixed_world ''https://fashionnova.com'' [])"
  have q: "\<not> enabled quiet_llm"
    by (simp add: quiet_llm_def)
  have k: "fst (extract_all_insights mixed_world ''https://fashionnova.com'' [])
      = Inr (projr (fst (extract_all_insights mixed_world ''https://fashionnova.com'' [])))"
    using fashionnova_returns by (rule sum.collapse(2) [symmetric])
  note keep = analyze_competitors_is_total
      [where w = mixed_world and llm = quiet_llm and pb = described_brand
         and u = "''https://fashionnova.com''" and us = "[''https://gymshark.com'', ''https://colourpop.com'']" and lga = "[]",
       THEN conjunct2, THEN conjunct2, THEN conjunct1, THEN mp, OF k, THEN conjunct1,
       THEN mp, OF q]
  note skip = analyze_competitors_is_total
      [where w = mixed_world and llm = quiet_llm and pb = described_brand
         and u = "''https://gymshark.com''" and us = "[''https://colourpop.com'']" and lga = ?lg1,
       THEN conjunct2, THEN conjunct1, THEN mp, OF gymshark_is_fatal]
  have c: "fst (analyze_candidates mixed_world quiet_llm described_brand
             [''https://fashionnova.com'', ''https://gymshark.com'', ''https://colourpop.com''] [])
      = projr (fst (extract_all_insights mixed_world ''https://fashionnova.com'' []))
        # fst (analyze_candidates mixed_world quiet_llm described_brand [''https://colourpop.com'']
                 (snd (extract_all_insights mixed_world ''https://gymshark.com'' ?lg1)))"
    using keep by (simp only: skip)
  from a b c show ?thesis
    by (intro conjI)
qed

end
